theory Spec2Isabelle
  imports Complex_Main "HOL-Library.Char_ord" "HOL-Library.List_Lexorder"
begin

section \<open>Token exchange with retries\<close>

text \<open>
  One call of \<open>requests.post\<close> followed by \<open>r.raise_for_status()\<close> has three kinds of
  outcome: the transport fails (a \<open>RequestException\<close> that is not an \<open>HTTPError\<close>, with
  its message), the server answers with a status code of the 4xx/5xx range (an
  \<open>HTTPError\<close> carrying that code), or the answer passes. The body of an answer is taken
  to be a JSON object; of it only the field \<open>access_token\<close> matters, which is absent or
  a string. The answers of the outside world are a function of the attempt number.
  The sleeps between attempts and their random jitter change no result and are left out.
\<close>

datatype response =
    Transport_failure string
  | Response nat "string option"

datatype token_error =
    HTTPError nat
  | RequestException string
  | KeyError
  | ValueError
  | RuntimeError

text \<open>\<open>r.raise_for_status()\<close>: an \<open>HTTPError\<close> for a status from 400 to 599.\<close>

definition raise_for_status :: "nat \<Rightarrow> bool" where
  "raise_for_status code = (400 \<le> code \<and> code < 600)"

definition max_retries :: nat where
  "max_retries = 5"

text \<open>
  \<open>zoho_get_access_token\<close> of \<open>Dipu_Mandal.py\<close> and \<open>engineer_working_hour.py\<close> (the two
  are the same text). The result is paired with the number of calls of \<open>requests.post\<close>
  made. \<open>r.json()["access_token"]\<close> raises \<open>KeyError\<close> when the field is absent, which
  neither \<open>except\<close> clause catches; a field that is present is returned as it is.
\<close>

function zoho_get_access_token_from ::
  "(nat \<Rightarrow> response) \<Rightarrow> nat \<Rightarrow> (token_error + string) \<times> nat" where
  "zoho_get_access_token_from post attempt =
     (if attempt < max_retries then
        (case post attempt of
           Transport_failure msg \<Rightarrow>
             if attempt < max_retries - 1
             then zoho_get_access_token_from post (Suc attempt)
             else (Inl (RequestException msg), Suc attempt)
         | Response code tok \<Rightarrow>
             if raise_for_status code then
               (if code = 400 \<and> attempt < max_retries - 1
                then zoho_get_access_token_from post (Suc attempt)
                else (Inl (HTTPError code), Suc attempt))
             else (case tok of
                     None \<Rightarrow> (Inl KeyError, Suc attempt)
                   | Some t \<Rightarrow> (Inr t, Suc attempt)))
      else (Inl RuntimeError, attempt))"
  by pat_completeness auto
termination
  by (relation "measure (\<lambda>(post, attempt). max_retries - attempt)") auto

declare zoho_get_access_token_from.simps [simp del]

definition zoho_get_access_token :: "(nat \<Rightarrow> response) \<Rightarrow> (token_error + string) \<times> nat" where
  "zoho_get_access_token post = zoho_get_access_token_from post 0"

text \<open>
  \<open>get_zoho_access_token\<close> of \<open>Tanmay_Mondal.py\<close>. Its \<open>try\<close> has the single clause
  \<open>except requests.HTTPError\<close>: a transport failure and the \<open>ValueError\<close> raised for an
  absent or empty token (\<open>if not token\<close>) leave the function at once.
\<close>

function get_zoho_access_token_from ::
  "(nat \<Rightarrow> response) \<Rightarrow> nat \<Rightarrow> (token_error + string) \<times> nat" where
  "get_zoho_access_token_from post attempt =
     (if attempt < 5 then
        (case post attempt of
           Transport_failure msg \<Rightarrow> (Inl (RequestException msg), Suc attempt)
         | Response code tok \<Rightarrow>
             if raise_for_status code then
               (if code = 400 \<and> attempt < 4
                then get_zoho_access_token_from post (Suc attempt)
                else (Inl (HTTPError code), Suc attempt))
             else (case tok of
                     None \<Rightarrow> (Inl ValueError, Suc attempt)
                   | Some t \<Rightarrow>
                       if t = [] then (Inl ValueError, Suc attempt)
                       else (Inr t, Suc attempt)))
      else (Inl RuntimeError, attempt))"
  by pat_completeness auto
termination
  by (relation "measure (\<lambda>(post, attempt). 5 - attempt)") auto

declare get_zoho_access_token_from.simps [simp del]

definition get_zoho_access_token :: "(nat \<Rightarrow> response) \<Rightarrow> (token_error + string) \<times> nat" where
  "get_zoho_access_token post = get_zoho_access_token_from post 0"

text \<open>The error an attempt leaves behind, and when the retrier of each file goes on after it.\<close>

fun error_of :: "response \<Rightarrow> token_error option" where
  "error_of (Transport_failure msg) = Some (RequestException msg)"
| "error_of (Response code tok) = (if raise_for_status code then Some (HTTPError code) else None)"

fun retryable :: "response \<Rightarrow> bool" where
  "retryable (Transport_failure msg) = True"
| "retryable (Response code tok) = (code = 400)"


section \<open>Polling the export job\<close>

text \<open>
  The loop of \<open>fetch_zoho_pdf\<close> (\<open>Tanmay_Mondal.py\<close>) and of \<open>zoho_bulk_export_pdf\<close>
  (\<open>Dipu_Mandal.py\<close>, \<open>engineer_working_hour.py\<close>), which are the same up to the text
  of their messages. A poll either fails at \<open>jr.raise_for_status()\<close> or yields the job
  code, \<open>int(data.get("jobCode", 0))\<close>, so an absent code is 0. The calls made are
  recorded in order.
\<close>

datatype poll_response = Poll_http_error nat | Job_code int

datatype call = Poll | Download

datatype export_error = Poll_HTTPError nat | Export_failed int

text \<open>The job codes after which the loop sleeps and polls again: \<open>code in (1001, 1002)\<close>.\<close>

definition in_progress :: "poll_response \<Rightarrow> bool" where
  "in_progress r = (r = Job_code 1001 \<or> r = Job_code 1002)"

text \<open>
  \<open>poll_loop n job i\<close> runs the last \<open>n\<close> of the 120 iterations, \<open>i\<close> polls having been
  made. In Python the \<open>for\<close> statement has no \<open>else\<close> branch, so a range that runs out
  ends the loop exactly as \<open>break\<close> does.
\<close>

fun poll_loop :: "nat \<Rightarrow> (nat \<Rightarrow> poll_response) \<Rightarrow> nat \<Rightarrow> nat \<times> export_error option" where
  "poll_loop 0 job i = (i, None)"
| "poll_loop (Suc n) job i =
     (case job i of
        Poll_http_error code \<Rightarrow> (Suc i, Some (Poll_HTTPError code))
      | Job_code code \<Rightarrow>
          if code = 1001 \<or> code = 1002 then poll_loop n job (Suc i)
          else if code = 1004 then (Suc i, None)
          else (Suc i, Some (Export_failed code)))"

text \<open>
  The part of the export after the job is created: the polls, then the download, which
  is reached only when the loop raised nothing. The result is the trace of calls and
  the error raised, if any; the download itself is taken to succeed.
\<close>

definition fetch_zoho_pdf :: "(nat \<Rightarrow> poll_response) \<Rightarrow> call list \<times> export_error option" where
  "fetch_zoho_pdf job =
     (case poll_loop 120 job 0 of
        (k, Some e) \<Rightarrow> (replicate k Poll, Some e)
      | (k, None) \<Rightarrow> (replicate k Poll @ [Download], None))"


section \<open>Delivery to several recipients\<close>

text \<open>
  \<open>main\<close> of \<open>engineer_working_hour.py\<close>. The outside world is the outcome of the export
  (whether \<open>zoho_bulk_export_pdf\<close> returned), whether the exported file exists and is not
  empty, the outcome of \<open>wa_upload_media\<close> (the media id, or none when it raised) and, for
  each send, whether \<open>wa_send_template_with_document\<close> returned or raised; the last may
  depend on the position in the list, the recipient and the media id. The state records
  how many uploads were made, every send attempted with its arguments, and the two
  counters. The pause between sends is left out.
\<close>

definition TO_NUMBERS :: "string list" where
  "TO_NUMBERS =
    [''919143128729'', ''919641772648'', ''917890960868'', ''916292149257'',
     ''917047688836'', ''919143128733'', ''919002002729'', ''917319317995'',
     ''919143128740'', ''918622019832'', ''917439592820'', ''919143128744'',
     ''918011384965'', ''919143128749'', ''918250998848'', ''917074309580'',
     ''919064992375'', ''916299408204'', ''916289660389'', ''918336921908'',
     ''919749442741'', ''916201458894'', ''918647856302'', ''919083184190'',
     ''919051956018'', ''919143128745'', ''918961646242'']"

record delivery =
  uploads :: nat
  sends :: "(string \<times> string) list"
  successful :: nat
  failed :: nat

datatype main_error = Export_raised | File_missing_or_empty | Upload_raised

text \<open>
  The loop \<open>for idx, to_number in enumerate(TO_NUMBERS, 1)\<close>: a send that raises is caught
  by \<open>except Exception\<close>, counted as failed, and the loop goes on.
\<close>

fun send_all ::
  "(nat \<Rightarrow> string \<Rightarrow> string \<Rightarrow> bool) \<Rightarrow> string \<Rightarrow> nat \<Rightarrow> string list \<Rightarrow> delivery \<Rightarrow> delivery" where
  "send_all send media_id idx [] st = st"
| "send_all send media_id idx (to_number # rest) st =
     send_all send media_id (Suc idx) rest
       (if send idx to_number media_id
        then st\<lparr>sends := sends st @ [(to_number, media_id)], successful := successful st + 1\<rparr>
        else st\<lparr>sends := sends st @ [(to_number, media_id)], failed := failed st + 1\<rparr>)"

definition main ::
  "bool \<Rightarrow> bool \<Rightarrow> string option \<Rightarrow> (nat \<Rightarrow> string \<Rightarrow> string \<Rightarrow> bool) \<Rightarrow> main_error + delivery" where
  "main export_ok file_ok upload send =
     (if \<not> export_ok then Inl Export_raised
      else if \<not> file_ok then Inl File_missing_or_empty
      else case upload of
             None \<Rightarrow> Inl Upload_raised
           | Some media_id \<Rightarrow>
               Inr (send_all send media_id 1 TO_NUMBERS
                      \<lparr>uploads = 1, sends = [], successful = 0, failed = 0\<rparr>))"


section \<open>The batch driver\<close>

text \<open>
  \<open>main\<close> of \<open>run_reports.py\<close>. Its inputs are \<open>sys.argv\<close>, the names \<open>os.listdir\<close>
  returns for the script's directory, and for each script whether \<open>subprocess.run\<close> with
  \<open>check=True\<close> returned or raised \<open>CalledProcessError\<close>. The builtin \<open>int\<close> is a
  parameter: \<open>None\<close> stands for the \<open>ValueError\<close> it raises on a string that is no
  integer. The result is what the driver did, in order, and the exit status of the
  process: 1 after \<open>sys.exit(1)\<close> and after an uncaught exception, 0 after a return.
\<close>

definition endswith :: "string \<Rightarrow> string \<Rightarrow> bool" where
  "endswith f suffix = (length suffix \<le> length f \<and> drop (length f - length suffix) f = suffix)"

text \<open>Python's \<open>xs[a:b]\<close>: a negative index counts from the end, and both are clipped.\<close>

definition slice_index :: "nat \<Rightarrow> int \<Rightarrow> nat" where
  "slice_index n i = (if i < 0 then nat (max 0 (int n + i)) else min n (nat i))"

definition py_slice :: "'a list \<Rightarrow> int \<Rightarrow> int \<Rightarrow> 'a list" where
  "py_slice xs a b = drop (slice_index (length xs) a) (take (slice_index (length xs) b) xs)"

datatype event =
    Usage
  | No_scripts_found
  | Finished string
  | Error_executing string
  | Waiting

text \<open>
  The loop \<open>for i, script in enumerate(batch)\<close>, with \<open>global_idx = start_idx + i\<close> and
  \<open>n = len(all_scripts)\<close>.
\<close>

fun run_batch :: "(string \<Rightarrow> bool) \<Rightarrow> nat \<Rightarrow> int \<Rightarrow> string list \<Rightarrow> event list" where
  "run_batch run n global_idx [] = []"
| "run_batch run n global_idx (script # rest) =
     (if run script then Finished script else Error_executing script)
     # (if global_idx < int n - 1 then [Waiting] else [])
     @ run_batch run n (global_idx + 1) rest"

definition all_scripts :: "string list \<Rightarrow> string list" where
  "all_scripts listdir =
     sort (filter (\<lambda>f. endswith f ''.py'' \<and> f \<noteq> ''run_reports.py'') listdir)"

definition run_reports ::
  "(string \<Rightarrow> int option) \<Rightarrow> string list \<Rightarrow> string list \<Rightarrow> (string \<Rightarrow> bool) \<Rightarrow> event list \<times> nat" where
  "run_reports py_int argv listdir run =
     (if length argv < 3 then ([Usage], 1)
      else case py_int (argv ! 1) of
        None \<Rightarrow> ([], 1)
      | Some start_idx \<Rightarrow>
          (case py_int (argv ! 2) of
             None \<Rightarrow> ([], 1)
           | Some end_idx \<Rightarrow>
               (let batch = py_slice (all_scripts listdir) start_idx end_idx
                in if batch = [] then ([No_scripts_found], 0)
                   else (run_batch run (length (all_scripts listdir)) start_idx batch, 0))))"

text \<open>The scripts a run executed, in order, read off the events.\<close>

fun executed :: "event list \<Rightarrow> string list" where
  "executed [] = []"
| "executed (Finished s # es) = s # executed es"
| "executed (Error_executing s # es) = s # executed es"
| "executed (e # es) = executed es"

text \<open>
  An instance of the parameter for examples: unsigned decimal numerals, on which it
  agrees with the builtin.
\<close>

fun digit_value :: "char \<Rightarrow> int option" where
  "digit_value c = (if CHR ''0'' \<le> c \<and> c \<le> CHR ''9''
                    then Some (int (of_char c) - 48) else None)"

fun decimal_from :: "int \<Rightarrow> string \<Rightarrow> int option" where
  "decimal_from acc [] = Some acc"
| "decimal_from acc (c # cs) =
     (case digit_value c of None \<Rightarrow> None | Some d \<Rightarrow> decimal_from (10 * acc + d) cs)"

definition decimal :: "string \<Rightarrow> int option" where
  "decimal s = (if s = [] then None else decimal_from 0 s)"


section \<open>The performance record\<close>

text \<open>
  The record is the dictionary \<open>json.loads\<close> returns. Every key may be absent
  (\<open>None\<close>); a key that is present holds a value of the type the schema of
  \<open>ANALYSIS_PROMPT\<close> gives it. A JSON number is read as a Python \<open>int\<close> or
  \<open>float\<close>. A float is modelled by the rational number it denotes: the rounding of
  doubles, infinities and NaN are outside the model, the exceptions of the arithmetic
  are inside it. Only the keys \<open>generate_report_pdf\<close> reads are fields here.
\<close>

datatype number = PyInt int | PyFloat rat

fun value_of :: "number \<Rightarrow> rat" where
  "value_of (PyInt n) = of_int n"
| "value_of (PyFloat q) = q"

record day_entry =
  d_day :: "string option"
  d_hours :: "string option"
  d_check_in :: "string option"
  d_check_out :: "string option"
  d_status :: "string option"

record example_entry =
  ex_company :: "string option"
  ex_machine_no :: "string option"
  ex_work_type :: "string option"
  ex_problem :: "string option"
  ex_work_done :: "string option"
  ex_quality_assessment :: "string option"

record rating_entry =
  r_company :: "string option"
  r_machine_no :: "string option"
  r_rating :: "number option"
  r_out_of :: "number option"
  r_date :: "string option"
  r_comment :: "string option"

record call_entry =
  c_company :: "string option"
  c_machine_no :: "string option"
  c_first_visit :: "string option"
  c_repeat_date :: "string option"
  c_issue_type :: "string option"

record working_hours_dict =
  wh_score :: "number option"
  wh_max_score :: "number option"
  wh_days :: "day_entry list option"
  wh_week1_score :: "number option"

record form_quality_dict =
  fq_score :: "number option"
  fq_max_score :: "number option"
  fq_examples :: "example_entry list option"
  fq_week1_score :: "number option"

record feedback_dict =
  fb_score :: "number option"
  fb_applicable :: "bool option"
  fb_ratings :: "rating_entry list option"
  fb_week1_score :: "number option"

record repeat_calls_dict =
  rc_score :: "number option"
  rc_max_score :: "number option"
  rc_count :: "number option"
  rc_calls :: "call_entry list option"

record performance_record =
  engineer_name :: "string option"
  week_range :: "string option"
  working_hours :: "working_hours_dict option"
  form_quality :: "form_quality_dict option"
  feedback :: "feedback_dict option"
  repeat_calls :: "repeat_calls_dict option"
  total_score :: "number option"
  max_possible :: "number option"
  percentage :: "number option"
  week1_total :: "number option"
  week1_max :: "number option"
  strengths :: "string list option"
  weaknesses :: "string list option"

text \<open>\<open>dict.get(key, default)\<close>, and the empty dictionaries \<open>data.get(key, {})\<close> falls back to.\<close>

fun get :: "'a option \<Rightarrow> 'a \<Rightarrow> 'a" where
  "get None fallback = fallback"
| "get (Some v) fallback = v"

definition no_working_hours :: working_hours_dict where
  "no_working_hours = \<lparr>wh_score = None, wh_max_score = None, wh_days = None, wh_week1_score = None\<rparr>"

definition no_form_quality :: form_quality_dict where
  "no_form_quality = \<lparr>fq_score = None, fq_max_score = None, fq_examples = None, fq_week1_score = None\<rparr>"

definition no_feedback :: feedback_dict where
  "no_feedback = \<lparr>fb_score = None, fb_applicable = None, fb_ratings = None, fb_week1_score = None\<rparr>"

definition no_repeat_calls :: repeat_calls_dict where
  "no_repeat_calls = \<lparr>rc_score = None, rc_max_score = None, rc_count = None, rc_calls = None\<rparr>"


section \<open>Arithmetic and formatting of numbers\<close>

text \<open>
  The exceptions that leave \<open>generate_report_pdf\<close>: the \<open>ValueError\<close> of a format
  specification, the two exceptions of the arithmetic, the \<open>ValueError\<close> with which the
  library's \<open>Paragraph\<close> refuses a text it cannot parse as markup, and an exception of
  \<open>doc.build\<close>.
\<close>

datatype render_error =
    Format_ValueError
  | ZeroDivisionError
  | OverflowError
  | Markup_ValueError
  | Build_error

definition and_then :: "render_error + 'a \<Rightarrow> ('a \<Rightarrow> render_error + 'b) \<Rightarrow> render_error + 'b" where
  "and_then m f = (case m of Inl e \<Rightarrow> Inl e | Inr v \<Rightarrow> f v)"

text \<open>
  An \<open>int\<close> is converted to \<open>float\<close> where it meets a float and where it is formatted
  with \<open>.1f\<close>; the conversion raises \<open>OverflowError\<close> from the magnitude that rounds to
  \<open>2 ^ 1024\<close> on. The true division of two ints raises it for a quotient of that size.
\<close>

definition float_overflow :: rat where
  "float_overflow = 2 ^ 1024 - 2 ^ 970"

fun to_float :: "number \<Rightarrow> render_error + rat" where
  "to_float (PyFloat q) = Inr q"
| "to_float (PyInt n) =
     (if float_overflow \<le> \<bar>of_int n\<bar> then Inl OverflowError else Inr (of_int n))"

fun py_add :: "number \<Rightarrow> number \<Rightarrow> render_error + number" where
  "py_add (PyInt a) (PyInt b) = Inr (PyInt (a + b))"
| "py_add x y = and_then (to_float x) (\<lambda>a. and_then (to_float y) (\<lambda>b. Inr (PyFloat (a + b))))"

fun py_sub :: "number \<Rightarrow> number \<Rightarrow> render_error + number" where
  "py_sub (PyInt a) (PyInt b) = Inr (PyInt (a - b))"
| "py_sub x y = and_then (to_float x) (\<lambda>a. and_then (to_float y) (\<lambda>b. Inr (PyFloat (a - b))))"

fun py_truediv :: "number \<Rightarrow> number \<Rightarrow> render_error + rat" where
  "py_truediv (PyInt a) (PyInt b) =
     (if b = 0 then Inl ZeroDivisionError
      else if float_overflow \<le> \<bar>of_int a / of_int b\<bar> then Inl OverflowError
      else Inr (of_int a / of_int b))"
| "py_truediv x y =
     and_then (to_float x) (\<lambda>a. and_then (to_float y) (\<lambda>b.
       if b = 0 then Inl ZeroDivisionError else Inr (a / b)))"

text \<open>Comparisons of a number with an integer literal are exact in Python and raise nothing.\<close>

definition ge :: "number \<Rightarrow> int \<Rightarrow> bool" where
  "ge x k = (of_int k \<le> value_of x)"

definition lt :: "number \<Rightarrow> int \<Rightarrow> bool" where
  "lt x k = (value_of x < of_int k)"

definition eq :: "number \<Rightarrow> int \<Rightarrow> bool" where
  "eq x k = (value_of x = of_int k)"


section \<open>The document\<close>

text \<open>
  A text is a sequence of pieces: template text of the source (\<open>Lit\<close>), a string value
  (\<open>Str\<close>: a string of the record, or the default \<open>dict.get\<close> gives for it), such a
  string after \<open>str.upper\<close> (\<open>Upper\<close>), and a number formatted as \<open>{x}\<close>, \<open>{x:.1f}\<close>
  or \<open>{x:+d}\<close>. The digits a format produces and the capitals \<open>str.upper\<close> produces are
  not modelled, the value formatted and the string capitalised are. Markup tags that only
  set a size or bold face are left out of the template text.
\<close>

datatype piece =
    Lit string
  | Str string
  | Upper string
  | Num number
  | Fixed1 rat
  | Signed_d int

type_synonym rich_text = "piece list"

type_synonym colour = string

text \<open>
  The flowables appended to \<open>els\<close>. A paragraph carries its text colour where the
  source sets one. Of a table's style commands those that carry a colour are kept, with
  their cell ranges; paddings, alignment and font names are left out.
\<close>

datatype cell = Plain rich_text | Para rich_text "colour option"

datatype style_command =
    BACKGROUND "int \<times> int" "int \<times> int" colour
  | TEXTCOLOR "int \<times> int" "int \<times> int" colour
  | BOX "int \<times> int" "int \<times> int" colour
  | GRID "int \<times> int" "int \<times> int" colour

datatype flowable =
    Paragraph rich_text "colour option"
  | Spacer
  | PageBreak
  | Table "cell list list" "style_command list"

definition C_BLUE :: colour where "C_BLUE = ''#0066CC''"
definition C_BLUE_LIGHT :: colour where "C_BLUE_LIGHT = ''#4A90E2''"
definition C_GREEN :: colour where "C_GREEN = ''#27AE60''"
definition C_ORANGE :: colour where "C_ORANGE = ''#F39C12''"
definition C_RED :: colour where "C_RED = ''#E74C3C''"
definition C_LGRAY :: colour where "C_LGRAY = ''#F5F5F5''"
definition C_MGRAY :: colour where "C_MGRAY = ''#E0E0E0''"
definition C_DARK :: colour where "C_DARK = ''#333333''"
definition C_WHITE :: colour where "C_WHITE = ''white''"

text \<open>The characters of the source that are not ASCII, as their UTF-8 bytes.\<close>

definition em_dash :: string where
  "em_dash = [CHR 0xE2, CHR 0x80, CHR 0x94]"

definition en_dash :: string where
  "en_dash = [CHR 0xE2, CHR 0x80, CHR 0x93]"

definition bullet :: string where
  "bullet = [CHR 0xE2, CHR 0x80, CHR 0xA2]"

definition double_quote :: string where
  "double_quote = [CHR 0x22]"

definition right_arrow :: string where
  "right_arrow = [CHR 0xE2, CHR 0x86, CHR 0x92]"

text \<open>
  \<open>str.lower\<close>. The source only compares its result with the words \<open>absent\<close>,
  \<open>exceptional\<close>, \<open>poor\<close>, \<open>critical\<close> and \<open>average\<close>. The only characters that
  \<open>str.lower\<close> maps to one of their letters are the ASCII letters themselves, so for
  these comparisons it is enough to map the ASCII capitals: a capital and its small letter
  differ by 32, which is bit 5 of the character.
\<close>

fun lower_char :: "char \<Rightarrow> char" where
  "lower_char (Char b0 b1 b2 b3 b4 b5 b6 b7) =
     (if CHR ''A'' \<le> Char b0 b1 b2 b3 b4 b5 b6 b7 \<and> Char b0 b1 b2 b3 b4 b5 b6 b7 \<le> CHR ''Z''
      then Char b0 b1 b2 b3 b4 True b6 b7 else Char b0 b1 b2 b3 b4 b5 b6 b7)"

definition lower :: "string \<Rightarrow> string" where
  "lower s = map lower_char s"

text \<open>The helpers \<open>_banner\<close> and \<open>_info_box\<close>: a table of one cell.\<close>

definition banner :: "rich_text \<Rightarrow> colour \<Rightarrow> flowable" where
  "banner txt bg_color =
     Table [[Para txt (Some ''white'')]] [BACKGROUND (0, 0) (-1, -1) bg_color]"

definition info_box :: "rich_text \<Rightarrow> colour \<Rightarrow> colour \<Rightarrow> flowable" where
  "info_box txt bg_color border_color =
     Table [[Para txt None]]
       [BACKGROUND (0, 0) (-1, -1) bg_color, BOX (0, 0) (-1, -1) border_color]"

text \<open>
  The formats \<open>{x:.1f}\<close>, which converts an int to float, and \<open>{x:+d}\<close>, which raises
  \<open>ValueError\<close> for a float.
\<close>

definition fixed1 :: "number \<Rightarrow> render_error + piece" where
  "fixed1 x = and_then (to_float x) (\<lambda>q. Inr (Fixed1 q))"

fun signed_d :: "number \<Rightarrow> render_error + piece" where
  "signed_d (PyInt n) = Inr (Signed_d n)"
| "signed_d (PyFloat q) = Inl Format_ValueError"

text \<open>
  The library \<open>reportlab\<close> is not part of the repository; what the renderer needs of it
  is a parameter. \<open>parses t\<close> says that \<open>Paragraph\<close> accepts the markup text the source
  makes of the pieces \<open>t\<close>: the constructor parses its text and raises \<open>ValueError\<close> on
  text that is not well-formed markup, which a string of the record can make it.
  \<open>builds els\<close> says that \<open>doc.build(els)\<close> returns. The texts the source makes of its
  own template and of numbers only are the same markup for every record; they are taken
  to be accepted.
\<close>

record reportlab =
  parses :: "rich_text \<Rightarrow> bool"
  builds :: "flowable list \<Rightarrow> bool"

definition paragraphs :: "reportlab \<Rightarrow> rich_text list \<Rightarrow> render_error + unit" where
  "paragraphs lib texts = (if list_all (parses lib) texts then Inr () else Inl Markup_ValueError)"

definition build :: "reportlab \<Rightarrow> flowable list \<Rightarrow> render_error + flowable list" where
  "build lib els = (if builds lib els then Inr els else Inl Build_error)"


section \<open>The renderer\<close>

text \<open>
  \<open>generate_report_pdf\<close> of \<open>Tanmay_Mondal.py\<close>, cut at the comments that head its
  parts. Each part yields the flowables it appends to \<open>els\<close>, or the exception raised
  while it builds them; the result is the list handed to \<open>doc.build\<close>, once that has
  returned. The dictionaries \<open>wh\<close>, \<open>fq\<close>, \<open>fb\<close> and \<open>rc\<close> are those of the source.
\<close>

definition wh :: "performance_record \<Rightarrow> working_hours_dict" where
  "wh data = get (working_hours data) no_working_hours"

definition fq :: "performance_record \<Rightarrow> form_quality_dict" where
  "fq data = get (form_quality data) no_form_quality"

definition fb :: "performance_record \<Rightarrow> feedback_dict" where
  "fb data = get (feedback data) no_feedback"

definition rc :: "performance_record \<Rightarrow> repeat_calls_dict" where
  "rc data = get (repeat_calls data) no_repeat_calls"

definition total :: "performance_record \<Rightarrow> number" where
  "total data = get (total_score data) (PyInt 0)"

definition max_pts :: "performance_record \<Rightarrow> number" where
  "max_pts data = get (max_possible data) (PyInt 100)"

definition pct :: "performance_record \<Rightarrow> number" where
  "pct data = get (percentage data) (PyInt 0)"

definition w1_total :: "performance_record \<Rightarrow> number" where
  "w1_total data = get (week1_total data) (PyInt 0)"

definition w1_max :: "performance_record \<Rightarrow> number" where
  "w1_max data = get (week1_max data) (PyInt 70)"

definition fb_applicable :: "performance_record \<Rightarrow> bool" where
  "fb_applicable data = get (feedback_dict.fb_applicable (fb data)) True"

text \<open>The status line and the colour of the score banner, from the stored percentage.\<close>

definition status_text :: "number \<Rightarrow> string" where
  "status_text p =
     (if ge p 80 then ''EXCELLENT''
      else if ge p 70 then ''ACCEPTABLE - IMPROVEMENT NEEDED''
      else ''BELOW STANDARD - URGENT ACTION REQUIRED'')"

definition banner_color :: "number \<Rightarrow> colour" where
  "banner_color p = (if ge p 80 then C_GREEN else if ge p 70 then C_ORANGE else C_RED)"

definition score_label :: "performance_record \<Rightarrow> rich_text" where
  "score_label data = [Num (total data), Lit ''/'', Num (max_pts data)]"

definition banner_content :: "performance_record \<Rightarrow> piece \<Rightarrow> flowable" where
  "banner_content data pct_1f =
     Table
       [[Para ([Lit ''EXECUTIVE SUMMARY''] @ score_label data
               @ [pct_1f, Lit ''%'', Lit (status_text (pct data))]) (Some ''white'')]]
       [BACKGROUND (0, 0) (-1, -1) (banner_color (pct data))]"

text \<open>The four metric cards: \<open>_card_col\<close> and the flags that colour them.\<close>

definition card_col :: "string \<Rightarrow> piece \<Rightarrow> piece \<Rightarrow> string \<Rightarrow> bool \<Rightarrow> cell list" where
  "card_col title score max_s status_txt good =
     (let clr = (if good then ''#27AE60'' else ''#E74C3C'') in
      [Para [Lit title] (Some ''#888888''),
       Para [score, Lit ''/'', max_s] (Some clr),
       Para [Lit status_txt] (Some clr)])"

definition wh_good :: "performance_record \<Rightarrow> bool" where
  "wh_good data = ge (get (wh_score (wh data)) (PyInt 0)) 15"

definition fq_good :: "performance_record \<Rightarrow> bool" where
  "fq_good data = ge (get (fq_score (fq data)) (PyInt 0)) 8"

definition fb_good :: "performance_record \<Rightarrow> bool" where
  "fb_good data = (fb_applicable data \<and> ge (get (fb_score (fb data)) (PyInt 0)) 20)"

definition rc_good :: "performance_record \<Rightarrow> bool" where
  "rc_good data = eq (get (rc_score (rc data)) (PyInt 0)) 30"

definition c1 :: "performance_record \<Rightarrow> cell list" where
  "c1 data = card_col ''WORKING HOURS''
     (Num (get (wh_score (wh data)) (PyInt 0))) (Num (get (wh_max_score (wh data)) (PyInt 20)))
     (if wh_good data then ''PERFECT'' else ''NEEDS WORK'') (wh_good data)"

definition c2 :: "performance_record \<Rightarrow> cell list" where
  "c2 data = card_col ''FORM QUALITY''
     (Num (get (fq_score (fq data)) (PyInt 0))) (Num (get (fq_max_score (fq data)) (PyInt 20)))
     (if fq_good data then ''GOOD'' else ''CRITICAL'') (fq_good data)"

definition c3 :: "performance_record \<Rightarrow> cell list" where
  "c3 data = card_col ''FEEDBACK''
     (if fb_applicable data then Num (get (fb_score (fb data)) (PyInt 0)) else Lit ''N/A'')
     (if fb_applicable data then Num (PyInt 30) else Lit em_dash)
     (if \<not> fb_applicable data then ''N/A'' else if fb_good data then ''GOOD'' else ''LOW'')
     (fb_good data)"

definition c4 :: "performance_record \<Rightarrow> cell list" where
  "c4 data = card_col ''REPEAT CALLS''
     (Num (get (rc_score (rc data)) (PyInt 0))) (Num (get (rc_max_score (rc data)) (PyInt 30)))
     (if rc_good data then ''PERFECT'' else ''HAS REPEATS'') (rc_good data)"

definition cards :: "performance_record \<Rightarrow> flowable" where
  "cards data =
     Table
       [[c1 data ! 0, c2 data ! 0, c3 data ! 0, c4 data ! 0],
        [c1 data ! 1, c2 data ! 1, c3 data ! 1, c4 data ! 1],
        [c1 data ! 2, c2 data ! 2, c3 data ! 2, c4 data ! 2]]
       [BACKGROUND (0, 0) (-1, -1) C_LGRAY,
        BOX (0, 0) (0, -1) C_MGRAY, BOX (1, 0) (1, -1) C_MGRAY,
        BOX (2, 0) (2, -1) C_MGRAY, BOX (3, 0) (3, -1) C_MGRAY]"

text \<open>
  The week-over-week table. \<open>w1_pct\<close> is \<open>(w1_total / w1_max * 100) if w1_max else 0\<close>;
  the two score differences are formatted with \<open>+d\<close>.
\<close>

definition w1_pct :: "performance_record \<Rightarrow> render_error + rat" where
  "w1_pct data =
     (if value_of (w1_max data) \<noteq> 0
      then and_then (py_truediv (w1_total data) (w1_max data)) (\<lambda>q. Inr (q * 100))
      else Inr 0)"

definition delta_s :: "number \<Rightarrow> rich_text" where
  "delta_s delta = (if ge delta 0 then [Lit ''+'', Num delta] else [Num delta])"

definition score_change :: "number option \<Rightarrow> number option \<Rightarrow> render_error + piece" where
  "score_change score week1 =
     and_then (py_sub (get score (PyInt 0)) (get week1 (PyInt 0))) signed_d"

definition cmp_table ::
  "performance_record \<Rightarrow> piece \<Rightarrow> rat \<Rightarrow> number \<Rightarrow> piece \<Rightarrow> piece \<Rightarrow> flowable" where
  "cmp_table data pct_1f w1p delta wh_change fq_change =
     Table
       [[Para [Lit ''Metric''] None, Para [Lit ''Week 1''] None,
         Para [Lit ''Week 2''] None, Para [Lit ''Change''] None],
        [Plain [Lit ''Working Hours''],
         Plain [Num (get (wh_week1_score (wh data)) (PyInt 0)), Lit ''/20''],
         Plain [Num (get (wh_score (wh data)) (PyInt 0)), Lit ''/20''],
         Plain [wh_change, Lit '' pts'']],
        [Plain [Lit ''Form Quality''],
         Plain [Num (get (fq_week1_score (fq data)) (PyInt 0)), Lit ''/20''],
         Plain [Num (get (fq_score (fq data)) (PyInt 0)), Lit ''/20''],
         Plain [fq_change, Lit '' pts'']],
        [Plain [Lit ''Customer Feedback''],
         Plain [Num (get (fb_week1_score (fb data)) (PyInt 0)), Lit ''/30''],
         Plain (if \<not> fb_applicable data then [Lit ''0/30 N/A'']
                else [Num (get (fb_score (fb data)) (PyInt 0)), Lit ''/30'']),
         Plain [Lit en_dash]],
        [Plain [Lit ''Repeat Calls''],
         Plain [Num (get (rc_score (rc data)) (PyInt 0)), Lit ''/30''],
         Plain [Num (get (rc_score (rc data)) (PyInt 0)), Lit ''/30''],
         Plain [Lit en_dash]],
        [Para [Lit ''TOTAL''] None,
         Para [Num (w1_total data), Lit ''/'', Num (w1_max data), Lit '' ('', Fixed1 w1p, Lit ''%)''] None,
         Para [Num (total data), Lit ''/'', Num (max_pts data), Lit '' ('', pct_1f, Lit ''%)''] None,
         Para (delta_s delta @ [Lit '' pts'']) None]]
       [BACKGROUND (0, 0) (-1, 0) C_BLUE, TEXTCOLOR (0, 0) (-1, 0) C_WHITE,
        BACKGROUND (0, 1) (-1, 4) C_WHITE, BACKGROUND (0, 5) (-1, 5) C_LGRAY,
        GRID (0, 0) (-1, -1) C_MGRAY]"

definition insight_txt :: "performance_record \<Rightarrow> rich_text" where
  "insight_txt data =
     [Lit ''Strengths:'']
     @ concat (map (\<lambda>s. [Lit (bullet @ '' ''), Str s]) (get (strengths data) []))
     @ [Lit ''Areas of Concern:'']
     @ concat (map (\<lambda>w. [Lit (bullet @ '' ''), Str w]) (get (weaknesses data) []))"

text \<open>Page 1: what is appended to \<open>els\<close>, given the formatted values.\<close>

definition title_text :: "performance_record \<Rightarrow> rich_text" where
  "title_text data = [Upper (get (engineer_name data) ''Engineer'')]"

definition subtitle_text :: "performance_record \<Rightarrow> rich_text" where
  "subtitle_text data =
     [Lit ''Performance Analysis Report | Week 2 ('', Str (get (week_range data) []), Lit '')'']"

definition page1 ::
  "performance_record \<Rightarrow> piece \<Rightarrow> rat \<Rightarrow> number \<Rightarrow> piece \<Rightarrow> piece \<Rightarrow> flowable list" where
  "page1 data pct_1f w1p delta wh_change fq_change =
     [Paragraph (title_text data) (Some C_BLUE),
      Paragraph (subtitle_text data) (Some ''#666666''),
      banner_content data pct_1f,
      Spacer,
      cards data,
      Spacer,
      Paragraph [Lit ''WEEK-OVER-WEEK COMPARISON''] (Some C_DARK),
      cmp_table data pct_1f w1p delta wh_change fq_change,
      Spacer,
      Paragraph [Lit ''KEY INSIGHTS''] (Some C_DARK),
      info_box (insight_txt data) C_LGRAY C_BLUE]"

text \<open>
  What can raise on page 1, in the order in which the source evaluates it: the two
  paragraphs of the title block, the formatted values, the paragraph of the insight box.
\<close>

definition summary_page :: "reportlab \<Rightarrow> performance_record \<Rightarrow> render_error + flowable list" where
  "summary_page lib data =
     and_then (paragraphs lib [title_text data, subtitle_text data]) (\<lambda>_.
     and_then (fixed1 (pct data)) (\<lambda>pct_1f.
     and_then (w1_pct data) (\<lambda>w1p.
     and_then (py_sub (total data) (w1_total data)) (\<lambda>delta.
     and_then (score_change (wh_score (wh data)) (wh_week1_score (wh data))) (\<lambda>wh_change.
     and_then (score_change (fq_score (fq data)) (fq_week1_score (fq data))) (\<lambda>fq_change.
     and_then (paragraphs lib [insight_txt data]) (\<lambda>_.
       Inr (page1 data pct_1f w1p delta wh_change fq_change))))))))"

text \<open>Page 2: the working hours table, one row and one row background per day.\<close>

definition day_row :: "day_entry \<Rightarrow> cell list" where
  "day_row d =
     (let h = Str (get (d_hours d) em_dash);
          status = lower (get (d_status d) []);
          flag = (if status = ''absent'' then [Lit ''ABSENT'']
                  else if status = ''exceptional'' then [Lit ''EXCEPTIONAL! '', h]
                  else [h])
      in [Plain [Str (get (d_day d) [])],
          Plain [Str (get (d_check_in d) em_dash)],
          Plain [Str (get (d_check_out d) em_dash)],
          Plain [h],
          Plain flag])"

fun day_backgrounds :: "int \<Rightarrow> day_entry list \<Rightarrow> style_command list" where
  "day_backgrounds i [] = []"
| "day_backgrounds i (d # ds) =
     BACKGROUND (0, i) (-1, i)
       (if lower (get (d_status d) []) = ''absent'' then ''#FFE5E5'' else ''#E8F5E9'')
     # day_backgrounds (i + 1) ds"

definition days_table :: "day_entry list \<Rightarrow> flowable" where
  "days_table days =
     Table
       ([Para [Lit ''Day''] None, Para [Lit ''Check In''] None, Para [Lit ''Check Out''] None,
         Para [Lit ''Total Hours''] None, Para [Lit ''Status''] None]
        # map day_row days)
       ([BACKGROUND (0, 0) (-1, 0) C_BLUE_LIGHT, TEXTCOLOR (0, 0) (-1, 0) C_WHITE,
         GRID (0, 0) (-1, -1) C_MGRAY]
        @ day_backgrounds 1 days)"

definition wh_analysis :: "performance_record \<Rightarrow> piece \<Rightarrow> rich_text" where
  "wh_analysis data wh_change =
     [Lit ''Score: '', Num (get (wh_score (wh data)) (PyInt 0)), Lit ''/20'',
      Lit ''  |  Week 1: '', Num (get (wh_week1_score (wh data)) (PyInt 0)),
      Lit (''/20  '' @ right_arrow @ ''  Week 2: ''), Num (get (wh_score (wh data)) (PyInt 0)),
      Lit ''/20  ('', wh_change, Lit '' points)'']"

definition hours_part :: "performance_record \<Rightarrow> piece \<Rightarrow> flowable list" where
  "hours_part data wh_change =
     [PageBreak,
      Paragraph [Lit ''DETAILED PERFORMANCE BREAKDOWN''] (Some C_DARK),
      Paragraph [Lit ''1. WORKING HOURS''] (Some C_DARK),
      days_table (get (wh_days (wh data)) []),
      Spacer,
      Paragraph (wh_analysis data wh_change) (Some ''#555555''),
      Spacer]"

definition working_hours_section :: "performance_record \<Rightarrow> render_error + flowable list" where
  "working_hours_section data =
     and_then (score_change (wh_score (wh data)) (wh_week1_score (wh data))) (\<lambda>wh_change.
       Inr (hours_part data wh_change))"

text \<open>Page 2: form quality, with one block per example.\<close>

definition fq_color :: "number \<Rightarrow> colour" where
  "fq_color s = (if ge s 8 then C_GREEN else if ge s 5 then C_ORANGE else C_RED)"

definition ex_texts :: "int \<Rightarrow> example_entry \<Rightarrow> rich_text list" where
  "ex_texts i ex =
     [[Lit ''EXAMPLE '', Num (PyInt i), Lit '': '', Str (get (ex_company ex) em_dash),
       Lit '' ('', Str (get (ex_machine_no ex) em_dash), Lit '')''],
      [Lit ''Work Type: '', Str (get (ex_work_type ex) em_dash), Lit ''  |  Quality: '',
       Upper (get (ex_quality_assessment ex) em_dash)],
      [Lit (''Problem: '' @ double_quote), Str (get (ex_problem ex) em_dash), Lit double_quote],
      [Lit (''Work Done: '' @ double_quote), Str (get (ex_work_done ex) em_dash), Lit double_quote]]"

definition ex_table :: "colour \<Rightarrow> int \<Rightarrow> example_entry \<Rightarrow> flowable" where
  "ex_table box_color i ex =
     (let qa = lower (get (ex_quality_assessment ex) []);
          bg = (if qa = ''poor'' \<or> qa = ''critical'' then ''#FFE5E5''
                else if qa = ''average'' then ''#FFF9E6'' else ''#E8F5E9'');
          hdr_bg = (if qa = ''poor'' \<or> qa = ''critical'' then ''#FFCCCC''
                    else if qa = ''average'' then ''#FFE5B4'' else ''#CCEECC'')
      in Table
           (map (\<lambda>t. [Para t None]) (ex_texts i ex))
           [BACKGROUND (0, 0) (-1, 0) hdr_bg, BACKGROUND (0, 1) (-1, -1) bg,
            BOX (0, 0) (-1, -1) box_color])"

fun example_blocks :: "colour \<Rightarrow> int \<Rightarrow> example_entry list \<Rightarrow> flowable list" where
  "example_blocks box_color i [] = []"
| "example_blocks box_color i (ex # exs) =
     ex_table box_color i ex # Spacer # example_blocks box_color (i + 1) exs"

text \<open>The texts of the paragraphs of the example blocks, in the order of their construction.\<close>

fun example_texts :: "int \<Rightarrow> example_entry list \<Rightarrow> rich_text list" where
  "example_texts i [] = []"
| "example_texts i (ex # exs) = ex_texts i ex @ example_texts (i + 1) exs"

definition critical_banner_text :: string where
  "critical_banner_text = ''CRITICAL - DOCUMENTATION REQUIRES IMMEDIATE IMPROVEMENT''"

definition form_quality_section :: "performance_record \<Rightarrow> flowable list" where
  "form_quality_section data =
     (let fq_score = get (form_quality_dict.fq_score (fq data)) (PyInt 0) in
      [Paragraph [Lit ''2. FORM QUALITY: '', Num fq_score, Lit ''/20''] (Some (fq_color fq_score))]
      @ (if lt fq_score 5 then [banner [Lit critical_banner_text] C_RED, Spacer] else [])
      @ [Paragraph [Lit ''Documentation Examples from This Week:''] None]
      @ example_blocks (fq_color fq_score) 1 (get (fq_examples (fq data)) []))"

text \<open>
  Page 3: customer feedback. The notice for an inapplicable section computes
  \<open>(total+21)/(max_pts+30)*100\<close>, with no guard on the divisor.
\<close>

definition would_be_text :: string where
  "would_be_text =
     ''Impact: Score calculated out of 70 (not 100). If feedback were collected at average level (21/30), total score would be ''"

definition fb_box :: "number \<Rightarrow> number \<Rightarrow> rat \<Rightarrow> rich_text" where
  "fb_box total21 max30 would_be =
     [Lit ''Status: No customer feedback collected.'',
      Lit would_be_text, Num total21, Lit ''/'', Num max30, Lit '' = '',
      Fixed1 would_be, Lit ''%.'',
      Lit ''Action Required: Training on requesting customer feedback after every service call.'']"

definition comment_text :: "rating_entry \<Rightarrow> rich_text" where
  "comment_text r = [Str (get (r_comment r) em_dash)]"

definition rating_row :: "rating_entry \<Rightarrow> cell list" where
  "rating_row r =
     (let rt = get (r_rating r) (PyInt 0);
          clr = (if ge rt 8 then ''#27AE60'' else if ge rt 6 then ''#F39C12'' else ''#E74C3C'')
      in [Plain [Str (get (r_company r) em_dash)],
          Plain [Str (get (r_machine_no r) em_dash)],
          Para [Num rt, Lit ''/'', Num (get (r_out_of r) (PyInt 10))] (Some clr),
          Plain [Str (get (r_date r) em_dash)],
          Para (comment_text r) None])"

definition ratings_table :: "rating_entry list \<Rightarrow> flowable" where
  "ratings_table ratings =
     Table
       ([Para [Lit ''Company''] None, Para [Lit ''Machine''] None, Para [Lit ''Rating''] None,
         Para [Lit ''Date''] None, Para [Lit ''Comment''] None]
        # map rating_row ratings)
       [BACKGROUND (0, 0) (-1, 0) C_BLUE, TEXTCOLOR (0, 0) (-1, 0) C_WHITE,
        GRID (0, 0) (-1, -1) C_MGRAY]"

definition no_feedback_banner_text :: string where
  "no_feedback_banner_text =
     ''NO FEEDBACK DATA COLLECTED '' @ em_dash @ '' SCORE NOT APPLICABLE''"

definition not_applicable_part :: "number \<Rightarrow> number \<Rightarrow> rat \<Rightarrow> flowable list" where
  "not_applicable_part total21 max30 q =
     [PageBreak,
      Paragraph [Lit ''3. CUSTOMER FEEDBACK''] (Some C_DARK),
      banner [Lit no_feedback_banner_text] C_ORANGE,
      Spacer,
      info_box (fb_box total21 max30 (q * 100)) C_LGRAY C_ORANGE,
      Spacer]"

definition ratings_part :: "rating_entry list \<Rightarrow> flowable list" where
  "ratings_part ratings =
     [PageBreak,
      Paragraph [Lit ''3. CUSTOMER FEEDBACK''] (Some C_DARK)]
     @ (if ratings \<noteq> [] then [ratings_table ratings] else [])
     @ [Spacer]"

definition feedback_section :: "reportlab \<Rightarrow> performance_record \<Rightarrow> render_error + flowable list" where
  "feedback_section lib data =
     (if \<not> fb_applicable data then
        and_then (py_add (total data) (PyInt 21)) (\<lambda>total21.
        and_then (py_add (max_pts data) (PyInt 30)) (\<lambda>max30.
        and_then (py_truediv total21 max30) (\<lambda>q.
          Inr (not_applicable_part total21 max30 q))))
      else
        and_then (paragraphs lib (map comment_text (get (fb_ratings (fb data)) []))) (\<lambda>_.
          Inr (ratings_part (get (fb_ratings (fb data)) []))))"

text \<open>Page 3: repeat calls. The score is compared with the literal 30.\<close>

definition zero_repeat_banner_text :: string where
  "zero_repeat_banner_text =
     ''ZERO REPEAT CALLS '' @ em_dash @ '' PERFECT FIRST-TIME FIX RATE''"

definition call_row :: "call_entry \<Rightarrow> cell list" where
  "call_row c =
     [Plain [Str (get (c_company c) em_dash)], Plain [Str (get (c_machine_no c) em_dash)],
      Plain [Str (get (c_first_visit c) em_dash)], Plain [Str (get (c_repeat_date c) em_dash)],
      Plain [Str (get (c_issue_type c) em_dash)]]"

definition calls_table :: "call_entry list \<Rightarrow> flowable" where
  "calls_table calls =
     Table
       ([Para [Lit ''Company''] None, Para [Lit ''Machine''] None, Para [Lit ''First Visit''] None,
         Para [Lit ''Repeat Date''] None, Para [Lit ''Issue Type''] None]
        # map call_row calls)
       [BACKGROUND (0, 0) (-1, 0) C_RED, TEXTCOLOR (0, 0) (-1, 0) C_WHITE,
        GRID (0, 0) (-1, -1) C_MGRAY]"

definition repeat_calls_section :: "performance_record \<Rightarrow> flowable list" where
  "repeat_calls_section data =
     (let rc_score = get (repeat_calls_dict.rc_score (rc data)) (PyInt 0);
          rc_color = (if eq rc_score 30 then C_GREEN else C_RED)
      in [Paragraph [Lit ''4. REPEAT CALLS: '', Num rc_score, Lit ''/30''] (Some rc_color)]
         @ (if eq rc_score 30 then
              [banner [Lit zero_repeat_banner_text] C_GREEN,
               Spacer,
               info_box [Lit ''All customer issues resolved on first visit. Demonstrates strong technical competence and effective problem-solving.'']
                 ''#E8F5E9'' C_GREEN]
            else
              [banner [Num (get (rc_count (rc data)) (PyInt 0)),
                       Lit '' REPEAT CALL(S) RECORDED THIS WEEK''] C_RED,
               Spacer]
              @ (if get (rc_calls (rc data)) [] \<noteq> []
                 then [calls_table (get (rc_calls (rc data)) [])] else [])))"

text \<open>
  The whole function: the parts in the order of the source, the paragraphs of the example
  blocks being built between the working hours and the feedback, and \<open>doc.build\<close> last.
\<close>

definition generate_report_pdf :: "reportlab \<Rightarrow> performance_record \<Rightarrow> render_error + flowable list" where
  "generate_report_pdf lib data =
     and_then (summary_page lib data) (\<lambda>page1.
     and_then (working_hours_section data) (\<lambda>hours.
     and_then (paragraphs lib (example_texts 1 (get (fq_examples (fq data)) []))) (\<lambda>_.
     and_then (feedback_section lib data) (\<lambda>feedback_part.
       build lib (page1 @ hours @ form_quality_section data
                  @ feedback_part @ repeat_calls_section data)))))"


section \<open>Reading a document\<close>

text \<open>
  What a reader of the document sees of a flowable: the rows of a table, and the pieces of
  text a flowable holds. \<open>mentions s f\<close> says that the template text \<open>s\<close> stands in \<open>f\<close>.
\<close>

fun table_rows :: "flowable \<Rightarrow> cell list list" where
  "table_rows (Table rows commands) = rows"
| "table_rows f = []"







section \<open>The defaults of absent keys\<close>











section \<open>Records used as examples\<close>

text \<open>The record with no key at all, and entries with no key.\<close>

definition empty_record :: performance_record where
  "empty_record =
     \<lparr>engineer_name = None, week_range = None, working_hours = None, form_quality = None,
      feedback = None, repeat_calls = None, total_score = None, max_possible = None,
      percentage = None, week1_total = None, week1_max = None, strengths = None,
      weaknesses = None\<rparr>"

definition empty_day :: day_entry where
  "empty_day = \<lparr>d_day = None, d_hours = None, d_check_in = None, d_check_out = None,
                 d_status = None\<rparr>"

definition empty_example :: example_entry where
  "empty_example = \<lparr>ex_company = None, ex_machine_no = None, ex_work_type = None,
                     ex_problem = None, ex_work_done = None, ex_quality_assessment = None\<rparr>"

definition empty_rating :: rating_entry where
  "empty_rating = \<lparr>r_company = None, r_machine_no = None, r_rating = None, r_out_of = None,
                    r_date = None, r_comment = None\<rparr>"

definition empty_call :: call_entry where
  "empty_call = \<lparr>c_company = None, c_machine_no = None, c_first_visit = None,
                  c_repeat_date = None, c_issue_type = None\<rparr>"


text \<open>A record whose repeat-calls score equals its own maximum of 20, with one call listed.\<close>

definition full_marks_of_20_record :: performance_record where
  "full_marks_of_20_record =
     empty_record\<lparr>repeat_calls := Some \<lparr>rc_score = Some (PyInt 20), rc_max_score = Some (PyInt 20),
                                        rc_count = Some (PyInt 0), rc_calls = None\<rparr>\<rparr>"

definition one_repeat_record :: performance_record where
  "one_repeat_record =
     empty_record\<lparr>repeat_calls := Some \<lparr>rc_score = Some (PyInt 20), rc_max_score = Some (PyInt 30),
                                        rc_count = Some (PyInt 1), rc_calls = Some [empty_call]\<rparr>\<rparr>"


text \<open>A record with a form-quality score of 6.\<close>

definition form_quality_6_record :: performance_record where
  "form_quality_6_record =
     empty_record\<lparr>form_quality := Some (no_form_quality\<lparr>form_quality_dict.fq_score := Some (PyInt 6)\<rparr>)\<rparr>"




section \<open>Records that are rendered without an exception\<close>





text \<open>
  An instance of the library for examples. It accepts the texts in which no string holds
  \<open><\<close> or \<open>&\<close>, the two characters that start markup, and it builds every document.
\<close>

fun plain_piece :: "piece \<Rightarrow> bool" where
  "plain_piece (Str s) = (CHR ''<'' \<notin> set s \<and> CHR ''&'' \<notin> set s)"
| "plain_piece (Upper s) = (CHR ''<'' \<notin> set s \<and> CHR ''&'' \<notin> set s)"
| "plain_piece p = True"

definition plain_reportlab :: reportlab where
  "plain_reportlab = \<lparr>parses = list_all plain_piece, builds = (\<lambda>els. True)\<rparr>"


section \<open>Properties of the token exchange\<close>

text \<open>
  In \<open>Dipu_Mandal.py\<close> and \<open>engineer_working_hour.py\<close> five attempts that all fail with a
  transport failure or with status 400 make five calls, and the error raised is the one
  of the fifth attempt.
\<close>

lemma zoho_get_access_token_from_exhausts:
  "attempt < 5 \<Longrightarrow> \<forall>i. attempt \<le> i \<and> i < 5 \<longrightarrow> retryable (post i) \<Longrightarrow>
   zoho_get_access_token_from post attempt = (Inl (the (error_of (post 4))), 5)"
proof (induction post attempt rule: zoho_get_access_token_from.induct)
  case (1 post attempt)
  from "1.prems" have r: "retryable (post attempt)" by simp
  show ?case
  proof (cases "attempt < 4")
    case True
    then have nxt: "Suc attempt < 5" by simp
    have all: "\<forall>i. Suc attempt \<le> i \<and> i < 5 \<longrightarrow> retryable (post i)" using "1.prems" by simp
    show ?thesis
    proof (cases "post attempt")
      case (Transport_failure msg)
      with True "1.IH"(1)[OF _ Transport_failure _ nxt all] show ?thesis
        by (subst zoho_get_access_token_from.simps) (simp add: max_retries_def)
    next
      case (Response code tok)
      with r have c: "code = 400" by simp
      then have rs: "raise_for_status code" by (simp add: raise_for_status_def)
      from True Response c rs "1.IH"(2)[OF _ Response rs _ nxt all] show ?thesis
        by (subst zoho_get_access_token_from.simps) (simp add: max_retries_def)
    qed
  next
    case False
    with "1.prems" have a4: "attempt = 4" by simp
    show ?thesis
    proof (cases "post 4")
      case (Transport_failure msg)
      with a4 show ?thesis
        by (subst zoho_get_access_token_from.simps) (simp add: max_retries_def)
    next
      case (Response code tok)
      with r a4 have c: "code = 400" by simp
      with a4 Response show ?thesis
        by (subst zoho_get_access_token_from.simps) (simp add: max_retries_def raise_for_status_def)
    qed
  qed
qed

lemma zoho_get_access_token_exhausts:
  "\<forall>i<5. retryable (post i) \<Longrightarrow>
   zoho_get_access_token post = (Inl (the (error_of (post 4))), 5)"
  unfolding zoho_get_access_token_def
  by (rule zoho_get_access_token_from_exhausts) simp_all

lemma zoho_get_access_token_exhausts_example:
  "zoho_get_access_token
     (\<lambda>i. if i = 4 then Transport_failure ''reset'' else Response 400 None)
   = (Inl (RequestException ''reset''), 5)"
  using zoho_get_access_token_exhausts
    [of "\<lambda>i. if i = 4 then Transport_failure ''reset'' else Response 400 None"]
  by simp

text \<open>
  C3. The claim holds of \<open>zoho_get_access_token\<close> (the lemmas above) and fails on
  \<open>get_zoho_access_token\<close> of \<open>Tanmay_Mondal.py\<close>, which retries status 400 only: when
  every attempt would fail with a transport failure, the operation is invoked once and
  the error raised is the one of the first attempt, not of the fifth.
\<close>

theorem get_zoho_access_token_transport_failure_not_retried:
  "get_zoho_access_token
     (\<lambda>i. Transport_failure (if i = 4 then ''fifth'' else ''earlier''))
   = (Inl (RequestException ''earlier''), 1)"
  by (simp add: get_zoho_access_token_def get_zoho_access_token_from.simps)

text \<open>
  In \<open>Tanmay_Mondal.py\<close> an answer that passes \<open>raise_for_status\<close> without a non-empty
  token raises \<open>ValueError\<close> at the attempt that received it: no further call is made,
  whatever the later answers would be. Attempts before it can only have been status 400.
\<close>

lemma get_zoho_access_token_from_rate_limited:
  "attempt < 4 \<Longrightarrow> post attempt = Response 400 tok \<Longrightarrow>
   get_zoho_access_token_from post attempt = get_zoho_access_token_from post (Suc attempt)"
  by (subst get_zoho_access_token_from.simps) (simp add: raise_for_status_def)

lemma get_zoho_access_token_from_no_token:
  "attempt < 5 \<Longrightarrow> post attempt = Response code tok \<Longrightarrow> \<not> raise_for_status code \<Longrightarrow>
   tok = None \<or> tok = Some [] \<Longrightarrow>
   get_zoho_access_token_from post attempt = (Inl ValueError, Suc attempt)"
  by (subst get_zoho_access_token_from.simps) auto

lemma get_zoho_access_token_no_token_first:
  "post 0 = Response 200 tok \<Longrightarrow> tok = None \<or> tok = Some [] \<Longrightarrow>
   get_zoho_access_token post = (Inl ValueError, 1)"
  unfolding get_zoho_access_token_def
  using get_zoho_access_token_from_no_token[of 0 post 200 tok]
  by (simp add: raise_for_status_def)

text \<open>
  In \<open>Dipu_Mandal.py\<close> an absent field raises \<open>KeyError\<close> at once as well.
\<close>

lemma zoho_get_access_token_absent_token:
  "post 0 = Response 200 None \<Longrightarrow> zoho_get_access_token post = (Inl KeyError, 1)"
  unfolding zoho_get_access_token_def
  by (subst zoho_get_access_token_from.simps) (simp add: max_retries_def raise_for_status_def)

text \<open>
  C5. The claim holds of \<open>get_zoho_access_token\<close> (the lemmas above) and fails on
  \<open>zoho_get_access_token\<close> of \<open>Dipu_Mandal.py\<close> and \<open>engineer_working_hour.py\<close>, which
  returns \<open>r.json()["access_token"]\<close> unchecked: a status 200 answer whose token field
  is the empty string raises nothing, and the empty token is returned.
\<close>

theorem zoho_get_access_token_returns_empty_token:
  "zoho_get_access_token (\<lambda>i. Response 200 (Some [])) = (Inr [], 1)"
  by (simp add: zoho_get_access_token_def zoho_get_access_token_from.simps
      max_retries_def raise_for_status_def)


section \<open>Properties of the polling loop\<close>

lemma poll_loop_skip:
  "m \<le> n \<Longrightarrow> \<forall>j. i \<le> j \<and> j < i + m \<longrightarrow> in_progress (job j) \<Longrightarrow>
   poll_loop n job i = poll_loop (n - m) job (i + m)"
proof (induction m arbitrary: n i)
  case 0
  then show ?case by simp
next
  case (Suc m)
  then obtain n' where n: "n = Suc n'" and le: "m \<le> n'" by (cases n) auto
  from Suc.prems(2) have here: "in_progress (job i)" by simp
  from Suc.prems(2) have rest: "\<forall>j. Suc i \<le> j \<and> j < Suc i + m \<longrightarrow> in_progress (job j)" by simp
  from here have "poll_loop (Suc n') job i = poll_loop n' job (Suc i)"
    by (auto simp: in_progress_def)
  also have "\<dots> = poll_loop (n' - m) job (Suc i + m)" by (rule Suc.IH[OF le rest])
  finally show ?case using n by simp
qed

lemma poll_loop_stop:
  "\<not> in_progress (job i) \<Longrightarrow>
   poll_loop (Suc n) job i =
     (Suc i, case job i of Poll_http_error c \<Rightarrow> Some (Poll_HTTPError c)
             | Job_code c \<Rightarrow> if c = 1004 then None else Some (Export_failed c))"
  by (auto simp: in_progress_def split: poll_response.splits)

text \<open>
  The first answer that is not an in-progress code decides the run: the download is made
  for code 1004 only, and every other answer raises after that poll without a download.
\<close>

lemma fetch_zoho_pdf_first_terminal:
  assumes k: "k < 120" and before: "\<forall>j<k. in_progress (job j)" and at: "\<not> in_progress (job k)"
  shows "fetch_zoho_pdf job =
     (case job k of
        Poll_http_error c \<Rightarrow> (replicate (Suc k) Poll, Some (Poll_HTTPError c))
      | Job_code c \<Rightarrow> if c = 1004 then (replicate (Suc k) Poll @ [Download], None)
                      else (replicate (Suc k) Poll, Some (Export_failed c)))"
proof -
  have "poll_loop 120 job 0 = poll_loop (120 - k) job (0 + k)"
    by (rule poll_loop_skip) (use k before in auto)
  moreover from k obtain n where "120 - k = Suc n" by (cases "120 - k") auto
  ultimately have "poll_loop 120 job 0 =
     (Suc k, case job k of Poll_http_error c \<Rightarrow> Some (Poll_HTTPError c)
             | Job_code c \<Rightarrow> if c = 1004 then None else Some (Export_failed c))"
    using poll_loop_stop[where job=job and i=k and n=n] at by simp
  then show ?thesis by (simp add: fetch_zoho_pdf_def split: poll_response.splits)
qed

lemma fetch_zoho_pdf_all_in_progress:
  assumes "\<forall>j<120. in_progress (job j)"
  shows "fetch_zoho_pdf job = (replicate 120 Poll @ [Download], None)"
proof -
  have "poll_loop 120 job 0 = poll_loop (120 - 120) job (0 + 120)"
    by (rule poll_loop_skip) (use assms in auto)
  then show ?thesis by (simp add: fetch_zoho_pdf_def)
qed

text \<open>
  So the download is reached in two ways only: after a poll that answered 1004, or after
  120 polls that all answered an in-progress code.
\<close>

lemma fetch_zoho_pdf_download_only_if:
  assumes "Download \<in> set (fst (fetch_zoho_pdf job))"
  shows "(\<exists>k<120. job k = Job_code 1004 \<and> (\<forall>j<k. in_progress (job j)))
         \<or> (\<forall>j<120. in_progress (job j))"
proof (cases "\<forall>j<120. in_progress (job j)")
  case True
  then show ?thesis by simp
next
  case False
  then obtain j0 where j0: "j0 < 120" "\<not> in_progress (job j0)" by auto
  define k where "k = (LEAST j. \<not> in_progress (job j))"
  have at: "\<not> in_progress (job k)" unfolding k_def by (rule LeastI[of _ j0]) (rule j0(2))
  have "k \<le> j0" unfolding k_def by (rule Least_le) (rule j0(2))
  with j0 have k: "k < 120" by simp
  have before: "\<forall>j<k. in_progress (job j)"
    using not_less_Least[of _ "\<lambda>j. \<not> in_progress (job j)"] unfolding k_def by blast
  from fetch_zoho_pdf_first_terminal[OF k before at] assms have "job k = Job_code 1004"
    by (auto split: poll_response.splits if_splits)
  with k before show ?thesis by blast
qed

text \<open>
  C1. The claim's first half holds (the lemmas above): an unexpected status raises without
  a download. Its second half fails on the code: when all 120 polls answer the
  in-progress code 1001, no timeout is raised; the loop ends and the download is called,
  the most recently observed status being 1001 and not 1004.
\<close>

theorem fetch_zoho_pdf_downloads_after_exhausted_polls:
  "fetch_zoho_pdf (\<lambda>i. Job_code 1001) = (replicate 120 Poll @ [Download], None)"
  by (rule fetch_zoho_pdf_all_in_progress) (simp add: in_progress_def)


section \<open>Properties of the delivery loop\<close>

lemma send_all_uploads: "uploads (send_all send m idx tos st) = uploads st"
  by (induction tos arbitrary: idx st) simp_all

lemma send_all_sends:
  "sends (send_all send m idx tos st) = sends st @ map (\<lambda>t. (t, m)) tos"
  by (induction tos arbitrary: idx st) simp_all

lemma send_all_total:
  "successful (send_all send m idx tos st) + failed (send_all send m idx tos st)
   = successful st + failed st + length tos"
  by (induction tos arbitrary: idx st) simp_all

lemma send_all_failed:
  "failed (send_all send m idx tos st)
   = failed st + length (filter (\<lambda>(i, t). \<not> send i t m) (zip [idx ..< idx + length tos] tos))"
proof (induction tos arbitrary: idx st)
  case Nil
  then show ?case by simp
next
  case (Cons t tos)
  have "[idx ..< idx + length (t # tos)] = idx # [Suc idx ..< Suc idx + length tos]"
    by (simp add: upt_rec)
  then show ?case using Cons.IH[of "Suc idx"] by simp
qed

text \<open>
  C10. Whenever the run of \<open>engineer_working_hour.py\<close> reaches the delivery (the export
  returned, the file is there, the upload returned a media id), whatever each send does:
  one upload was made; a send was attempted for every configured recipient, in order,
  each with that media id; the two counters sum to the number of recipients; and the
  failure counter is the number of sends that raised.
\<close>

theorem main_uploads_once_and_counts_every_recipient:
  "\<exists>st. main True True (Some media_id) send = Inr st
     \<and> uploads st = 1
     \<and> sends st = map (\<lambda>t. (t, media_id)) TO_NUMBERS
     \<and> successful st + failed st = length TO_NUMBERS
     \<and> failed st = length (filter (\<lambda>(i, t). \<not> send i t media_id)
                             (zip [1 ..< 1 + length TO_NUMBERS] TO_NUMBERS))"
proof -
  let ?init = "\<lparr>uploads = 1, sends = [], successful = 0, failed = 0\<rparr>"
  let ?st = "send_all send media_id 1 TO_NUMBERS ?init"
  have "main True True (Some media_id) send = Inr ?st"
    by (simp add: main_def)
  moreover have "uploads ?st = 1"
    by (simp add: send_all_uploads)
  moreover have "sends ?st = map (\<lambda>t. (t, media_id)) TO_NUMBERS"
    by (simp add: send_all_sends)
  moreover have "successful ?st + failed ?st = length TO_NUMBERS"
    using send_all_total[of send media_id 1 TO_NUMBERS ?init] by simp
  moreover have "failed ?st = length (filter (\<lambda>(i, t). \<not> send i t media_id)
                             (zip [1 ..< 1 + length TO_NUMBERS] TO_NUMBERS))"
    using send_all_failed[of send media_id 1 TO_NUMBERS ?init] by simp
  ultimately show ?thesis by blast
qed

section \<open>Properties of the batch driver\<close>

lemma executed_append: "executed (xs @ ys) = executed xs @ executed ys"
  by (induction xs rule: executed.induct) simp_all

lemma executed_run_batch: "executed (run_batch run n g batch) = batch"
  by (induction batch arbitrary: g) (simp_all add: executed_append)

lemma error_run_batch:
  "(Error_executing s \<in> set (run_batch run n g batch)) = (s \<in> set batch \<and> \<not> run s)"
  by (induction batch arbitrary: g) auto

lemma sorted_all_scripts: "sorted (all_scripts listdir)"
  by (simp add: all_scripts_def)

lemma set_all_scripts:
  "set (all_scripts listdir) = {f \<in> set listdir. endswith f ''.py'' \<and> f \<noteq> ''run_reports.py''}"
  by (simp add: all_scripts_def)

lemma endswith_iff: "endswith f suffix = (\<exists>stem. f = stem @ suffix)"
proof
  assume "endswith f suffix"
  then have "f = take (length f - length suffix) f @ suffix"
    by (metis append_take_drop_id endswith_def)
  then show "\<exists>stem. f = stem @ suffix" ..
next
  assume "\<exists>stem. f = stem @ suffix"
  then show "endswith f suffix" by (auto simp: endswith_def)
qed

text \<open>
  C9. The exit status of \<open>run_reports.py\<close> is non-zero exactly when fewer than two index
  arguments are given or \<open>int\<close> rejects one of them, and then no script was run. With
  two integer arguments \<open>a\<close> and \<open>b\<close> the scripts run are, in order, the slice \<open>[a:b]\<close> of
  the sorted names of the directory that end in \<open>.py\<close> and are not \<open>run_reports.py\<close>,
  whatever the scripts' outcomes were: with \<open>n\<close> such names, the names from position \<open>lo\<close>
  up to position \<open>hi\<close>, where a negative index counts from the end and both are clipped
  to \<open>0 .. n\<close>. The scripts logged as failed are exactly those of the slice whose run
  raised, and the exit status is 0.
\<close>

theorem run_reports_exit_status_and_batch:
  "(snd (run_reports py_int argv listdir run) \<noteq> 0)
     = (length argv < 3 \<or> py_int (argv ! 1) = None \<or> py_int (argv ! 2) = None)
   \<and> (snd (run_reports py_int argv listdir run) \<noteq> 0 \<longrightarrow>
        executed (fst (run_reports py_int argv listdir run)) = [])
   \<and> (\<forall>a b scripts lo hi.
        3 \<le> length argv \<and> py_int (argv ! 1) = Some a \<and> py_int (argv ! 2) = Some b
        \<and> scripts = sort (filter (\<lambda>f. (\<exists>stem. f = stem @ ''.py'') \<and> f \<noteq> ''run_reports.py'')
                             listdir)
        \<and> lo = (if a < 0 then nat (max 0 (int (length scripts) + a))
                 else min (length scripts) (nat a))
        \<and> hi = (if b < 0 then nat (max 0 (int (length scripts) + b))
                 else min (length scripts) (nat b)) \<longrightarrow>
        executed (fst (run_reports py_int argv listdir run)) = drop lo (take hi scripts)
      \<and> (\<forall>s. (Error_executing s \<in> set (fst (run_reports py_int argv listdir run)))
             = (s \<in> set (drop lo (take hi scripts)) \<and> \<not> run s)))"
proof -
  have scripts: "all_scripts listdir
     = sort (filter (\<lambda>f. (\<exists>stem. f = stem @ ''.py'') \<and> f \<noteq> ''run_reports.py'') listdir)"
    by (simp add: all_scripts_def endswith_iff)
  have status: "(snd (run_reports py_int argv listdir run) \<noteq> 0)
     = (length argv < 3 \<or> py_int (argv ! 1) = None \<or> py_int (argv ! 2) = None)"
    by (auto simp: run_reports_def Let_def split: option.splits)
  have nothing: "snd (run_reports py_int argv listdir run) \<noteq> 0 \<longrightarrow>
        executed (fst (run_reports py_int argv listdir run)) = []"
    by (auto simp: run_reports_def Let_def split: option.splits)
  have batch: "executed (fst (run_reports py_int argv listdir run))
                 = py_slice (all_scripts listdir) a b
      \<and> (\<forall>s. (Error_executing s \<in> set (fst (run_reports py_int argv listdir run)))
             = (s \<in> set (py_slice (all_scripts listdir) a b) \<and> \<not> run s))"
    if "3 \<le> length argv" "py_int (argv ! 1) = Some a" "py_int (argv ! 2) = Some b" for a b
    using that
    by (auto simp: run_reports_def Let_def executed_run_batch error_run_batch)
  have slice: "py_slice xs a b
       = drop (if a < 0 then nat (max 0 (int (length xs) + a)) else min (length xs) (nat a))
           (take (if b < 0 then nat (max 0 (int (length xs) + b)) else min (length xs) (nat b))
              xs)" for xs :: "string list" and a b
    by (simp add: py_slice_def slice_index_def)
  have explicit: "\<forall>a b scripts lo hi.
        3 \<le> length argv \<and> py_int (argv ! 1) = Some a \<and> py_int (argv ! 2) = Some b
        \<and> scripts = sort (filter (\<lambda>f. (\<exists>stem. f = stem @ ''.py'') \<and> f \<noteq> ''run_reports.py'')
                             listdir)
        \<and> lo = (if a < 0 then nat (max 0 (int (length scripts) + a))
                 else min (length scripts) (nat a))
        \<and> hi = (if b < 0 then nat (max 0 (int (length scripts) + b))
                 else min (length scripts) (nat b)) \<longrightarrow>
        executed (fst (run_reports py_int argv listdir run)) = drop lo (take hi scripts)
      \<and> (\<forall>s. (Error_executing s \<in> set (fst (run_reports py_int argv listdir run)))
             = (s \<in> set (drop lo (take hi scripts)) \<and> \<not> run s))"
  proof (intro allI impI, elim conjE)
    fix a b scripts lo hi
    assume h: "3 \<le> length argv" "py_int (argv ! 1) = Some a" "py_int (argv ! 2) = Some b"
      and s: "scripts = sort (filter (\<lambda>f. (\<exists>stem. f = stem @ ''.py'') \<and> f \<noteq> ''run_reports.py'')
                             listdir)"
      and lo: "lo = (if a < 0 then nat (max 0 (int (length scripts) + a))
                 else min (length scripts) (nat a))"
      and hi: "hi = (if b < 0 then nat (max 0 (int (length scripts) + b))
                 else min (length scripts) (nat b))"
    from s scripts have a: "all_scripts listdir = scripts" by simp
    have "py_slice scripts a b = drop lo (take hi scripts)"
      unfolding lo hi by (rule slice)
    with batch[OF h] a
    show "executed (fst (run_reports py_int argv listdir run)) = drop lo (take hi scripts)
      \<and> (\<forall>s. (Error_executing s \<in> set (fst (run_reports py_int argv listdir run)))
             = (s \<in> set (drop lo (take hi scripts)) \<and> \<not> run s))"
      by simp
  qed
  show ?thesis
    apply (intro conjI)
      apply (fact status)
     apply (fact nothing)
    apply (fact explicit)
    done
qed


text \<open>
  The theorem in a directory of six entries, for the arguments 1 and 3, where the run of
  \<open>b.py\<close> fails.
\<close>

theorem run_reports_exit_status_and_batch_witness:
  "snd (run_reports decimal [''run_reports.py'', ''1'', ''3'']
            [''b.py'', ''run_reports.py'', ''a.py'', ''notes.txt'', ''c.py'', ''d.py'']
            (\<lambda>s. s \<noteq> ''b.py'')) = 0
   \<and> executed (fst (run_reports decimal [''run_reports.py'', ''1'', ''3'']
            [''b.py'', ''run_reports.py'', ''a.py'', ''notes.txt'', ''c.py'', ''d.py'']
            (\<lambda>s. s \<noteq> ''b.py''))) = [''b.py'', ''c.py'']"
  using run_reports_exit_status_and_batch[of decimal "[''run_reports.py'', ''1'', ''3'']"
            "[''b.py'', ''run_reports.py'', ''a.py'', ''notes.txt'', ''c.py'', ''d.py'']"
            "(\<lambda>s. s \<noteq> ''b.py'')"]
  by (simp add: decimal_def all_scripts_def endswith_def py_slice_def slice_index_def)

section \<open>Properties of the renderer\<close>

subsection \<open>The shape of a rendered document\<close>

text \<open>
  A document that is rendered is page 1, the working hours part, the form quality part,
  the feedback part and the repeat calls part, in this order; the percentage piece of
  page 1 is the value of \<open>pct\<close>, and the two score changes are integers.
\<close>

lemma and_then_Inr: "(and_then m f = Inr y) = (\<exists>v. m = Inr v \<and> f v = Inr y)"
  by (cases m) (simp_all add: and_then_def)

lemma to_float_Inr: "to_float x = Inr q \<Longrightarrow> q = value_of x"
  by (cases x) (auto split: if_splits)

lemma fixed1_Inr: "fixed1 x = Inr p \<Longrightarrow> p = Fixed1 (value_of x)"
  by (auto simp: fixed1_def and_then_Inr dest: to_float_Inr)

lemma signed_d_Inr: "signed_d x = Inr p \<Longrightarrow> \<exists>n. p = Signed_d n"
  by (cases x) auto

lemma score_change_Inr: "score_change a b = Inr p \<Longrightarrow> \<exists>n. p = Signed_d n"
  by (auto simp: score_change_def and_then_Inr dest: signed_d_Inr)


lemma build_Inr: "(build lib els = Inr els') = (builds lib els \<and> els' = els)"
  by (auto simp: build_def)

lemma generate_report_pdf_parts:
  assumes "generate_report_pdf lib data = Inr els"
  shows "\<exists>w1p delta n m feedback_part.
     feedback_section lib data = Inr feedback_part
     \<and> els = page1 data (Fixed1 (value_of (pct data))) w1p delta (Signed_d n) (Signed_d m)
             @ hours_part data (Signed_d n) @ form_quality_section data
             @ feedback_part @ repeat_calls_section data"
proof -
  from assms obtain first_page hours feedback_part where
    s: "summary_page lib data = Inr first_page" and h: "working_hours_section data = Inr hours"
    and f: "feedback_section lib data = Inr feedback_part"
    and els: "els = first_page @ hours @ form_quality_section data
                    @ feedback_part @ repeat_calls_section data"
    unfolding generate_report_pdf_def and_then_Inr build_Inr by auto
  from h obtain wh_change where
    w: "score_change (wh_score (wh data)) (wh_week1_score (wh data)) = Inr wh_change"
    and hours: "hours = hours_part data wh_change"
    unfolding working_hours_section_def and_then_Inr by auto
  from score_change_Inr[OF w] obtain n where n: "wh_change = Signed_d n" by blast
  from s w obtain pct_1f w1p delta fq_change where
    p: "fixed1 (pct data) = Inr pct_1f"
    and q: "score_change (fq_score (fq data)) (fq_week1_score (fq data)) = Inr fq_change"
    and first: "first_page = page1 data pct_1f w1p delta wh_change fq_change"
    unfolding summary_page_def and_then_Inr by auto
  from score_change_Inr[OF q] obtain m where m: "fq_change = Signed_d m" by blast
  from fixed1_Inr[OF p] first n m hours els f show ?thesis by blast
qed

lemma length_page1 [simp]: "length (page1 data a b c d e) = 11"
  by (simp add: page1_def)


lemma page1_nth_4: "page1 data a b c d e ! 4 = cards data"
  by (simp add: page1_def)


lemmas record_defs =
  empty_record_def empty_day_def empty_example_def empty_rating_def empty_call_def
  no_working_hours_def no_form_quality_def no_feedback_def no_repeat_calls_def

lemma plain_reportlab_simps:
  "parses plain_reportlab = list_all plain_piece" "builds plain_reportlab els = True"
  by (simp_all add: plain_reportlab_def)

lemmas render_defs =
  generate_report_pdf_def summary_page_def working_hours_section_def feedback_section_def
  form_quality_section_def repeat_calls_section_def page1_def hours_part_def
  not_applicable_part_def ratings_part_def and_then_def fixed1_def score_change_def
  w1_pct_def wh_def fq_def fb_def rc_def total_def max_pts_def pct_def w1_total_def
  w1_max_def fb_applicable_def float_overflow_def Let_def
  paragraphs_def build_def plain_reportlab_simps title_text_def subtitle_text_def
  insight_txt_def comment_text_def ex_texts_def






subsection \<open>The percentage shown\<close>











subsection \<open>Banners and the table of repeat calls\<close>

lemma banner_eq: "(banner t c = banner t' c') = (t = t' \<and> c = c')"
  by (auto simp: banner_def)

lemma banner_not_info_box: "banner t c \<noteq> info_box t' bg border"
  by (simp add: banner_def info_box_def)

lemma banner_not_in_page1: "length t \<le> 2 \<Longrightarrow> banner t c \<notin> set (page1 data a b c' d e)"
  by (auto simp: page1_def banner_def banner_content_def cards_def cmp_table_def info_box_def
      score_label_def)

lemma banner_not_days_table: "banner t c \<noteq> days_table days"
  by (simp add: banner_def days_table_def)

lemma banner_not_in_hours_part: "banner t c \<notin> set (hours_part data x)"
  by (simp add: hours_part_def banner_not_days_table) (simp add: banner_def)

lemma banner_not_in_example_blocks: "banner t c \<notin> set (example_blocks col i exs)"
  by (induction col i exs rule: example_blocks.induct)
     (simp_all add: banner_def ex_table_def Let_def)

lemma banner_in_form_quality_section:
  "(banner t c \<in> set (form_quality_section data))
   = (lt (get (fq_score (fq data)) (PyInt 0)) 5 \<and> t = [Lit critical_banner_text] \<and> c = C_RED)"
  by (auto simp: form_quality_section_def Let_def banner_not_in_example_blocks banner_eq)
     (simp_all add: banner_def)

lemma banner_in_not_applicable_part:
  "(banner t c \<in> set (not_applicable_part x y q)) = (t = [Lit no_feedback_banner_text] \<and> c = C_ORANGE)"
  by (auto simp: not_applicable_part_def banner_eq banner_not_info_box) (simp_all add: banner_def)

lemma banner_not_in_ratings_part: "banner t c \<notin> set (ratings_part rs)"
  by (simp add: ratings_part_def) (simp add: banner_def ratings_table_def)

lemma banner_in_feedback_section:
  "feedback_section lib data = Inr part \<Longrightarrow>
   (banner t c \<in> set part) = (\<not> fb_applicable data \<and> t = [Lit no_feedback_banner_text] \<and> c = C_ORANGE)"
  by (auto simp: feedback_section_def and_then_Inr banner_in_not_applicable_part
      banner_not_in_ratings_part split: if_splits)

lemma banner_not_calls_table: "banner t c \<noteq> calls_table cs"
  by (simp add: banner_def calls_table_def)

lemma banner_in_repeat_calls_section:
  "(banner t c \<in> set (repeat_calls_section data))
   = (if eq (get (rc_score (rc data)) (PyInt 0)) 30
      then t = [Lit zero_repeat_banner_text] \<and> c = C_GREEN
      else t = [Num (get (rc_count (rc data)) (PyInt 0)), Lit '' REPEAT CALL(S) RECORDED THIS WEEK'']
           \<and> c = C_RED)"
  by (auto simp: repeat_calls_section_def Let_def banner_eq banner_not_info_box banner_not_calls_table)
     (simp_all add: banner_def)

lemma banner_in_document:
  assumes "generate_report_pdf lib data = Inr els" and "length t \<le> 2"
  shows "(banner t c \<in> set els) =
     (lt (get (fq_score (fq data)) (PyInt 0)) 5 \<and> t = [Lit critical_banner_text] \<and> c = C_RED
      \<or> \<not> fb_applicable data \<and> t = [Lit no_feedback_banner_text] \<and> c = C_ORANGE
      \<or> banner t c \<in> set (repeat_calls_section data))"
proof -
  from generate_report_pdf_parts[OF assms(1)] obtain w1p delta n m part
    where f: "feedback_section lib data = Inr part"
      and els: "els = page1 data (Fixed1 (value_of (pct data))) w1p delta (Signed_d n) (Signed_d m)
             @ hours_part data (Signed_d n) @ form_quality_section data
             @ part @ repeat_calls_section data" by blast
  show ?thesis unfolding els
    using banner_not_in_page1[OF assms(2)] banner_in_feedback_section[OF f]
    by (auto simp: banner_not_in_hours_part banner_in_form_quality_section)
qed

lemma calls_table_not_in_page1: "calls_table cs \<notin> set (page1 data a b c d e)"
  by (simp add: page1_def calls_table_def banner_content_def cards_def cmp_table_def info_box_def)

lemma calls_table_not_in_hours_part: "calls_table cs \<notin> set (hours_part data x)"
  by (simp add: hours_part_def calls_table_def days_table_def)

lemma calls_table_not_in_example_blocks: "calls_table cs \<notin> set (example_blocks col i exs)"
  by (induction col i exs rule: example_blocks.induct)
     (simp_all add: calls_table_def ex_table_def Let_def)

lemma calls_table_not_in_form_quality_section: "calls_table cs \<notin> set (form_quality_section data)"
  by (simp add: form_quality_section_def Let_def calls_table_not_in_example_blocks)
     (simp add: calls_table_def banner_def)

lemma calls_table_not_in_feedback_section:
  "feedback_section lib data = Inr part \<Longrightarrow> calls_table cs \<notin> set part"
  by (auto simp: feedback_section_def and_then_Inr not_applicable_part_def ratings_part_def
      calls_table_def banner_def info_box_def ratings_table_def split: if_splits)

lemma calls_table_in_repeat_calls_section:
  "(\<exists>cs. calls_table cs \<in> set (repeat_calls_section data))
   = (\<not> eq (get (rc_score (rc data)) (PyInt 0)) 30 \<and> get (rc_calls (rc data)) [] \<noteq> [])"
  by (auto simp: repeat_calls_section_def Let_def)
     (simp_all add: calls_table_def banner_def info_box_def)

lemma calls_table_in_document:
  assumes "generate_report_pdf lib data = Inr els"
  shows "(\<exists>cs. calls_table cs \<in> set els)
   = (\<not> eq (get (rc_score (rc data)) (PyInt 0)) 30 \<and> get (rc_calls (rc data)) [] \<noteq> [])"
proof -
  from generate_report_pdf_parts[OF assms] obtain w1p delta n m part
    where f: "feedback_section lib data = Inr part"
      and els: "els = page1 data (Fixed1 (value_of (pct data))) w1p delta (Signed_d n) (Signed_d m)
             @ hours_part data (Signed_d n) @ form_quality_section data
             @ part @ repeat_calls_section data" by blast
  have "(\<exists>cs. calls_table cs \<in> set els) = (\<exists>cs. calls_table cs \<in> set (repeat_calls_section data))"
    unfolding els using calls_table_not_in_feedback_section[OF f]
    by (simp add: calls_table_not_in_page1 calls_table_not_in_hours_part
        calls_table_not_in_form_quality_section)
  then show ?thesis by (simp add: calls_table_in_repeat_calls_section)
qed

lemma document_ends_with_repeat_calls:
  assumes "generate_report_pdf lib data = Inr els"
  shows "\<exists>pre. els = pre @ repeat_calls_section data"
  using generate_report_pdf_parts[OF assms] by (metis append.assoc)

lemma document_nth_4:
  assumes "generate_report_pdf lib data = Inr els"
  shows "els ! 4 = cards data"
  using generate_report_pdf_parts[OF assms] by (auto simp: nth_append page1_nth_4)

lemma cards_status_cells:
  "table_rows (cards data) ! 2 ! 1 = c2 data ! 2" "table_rows (cards data) ! 2 ! 3 = c4 data ! 2"
  by (simp_all add: cards_def)

lemma repeat_calls_section_cases:
  "repeat_calls_section data =
           (if eq (get (rc_score (rc data)) (PyInt 0)) 30
            then [Paragraph [Lit ''4. REPEAT CALLS: '', Num (get (rc_score (rc data)) (PyInt 0)),
                             Lit ''/30''] (Some C_GREEN),
                  banner [Lit zero_repeat_banner_text] C_GREEN,
                  Spacer,
                  info_box [Lit ''All customer issues resolved on first visit. Demonstrates strong technical competence and effective problem-solving.'']
                    ''#E8F5E9'' C_GREEN]
            else [Paragraph [Lit ''4. REPEAT CALLS: '', Num (get (rc_score (rc data)) (PyInt 0)),
                             Lit ''/30''] (Some C_RED),
                  banner [Num (get (rc_count (rc data)) (PyInt 0)),
                          Lit '' REPEAT CALL(S) RECORDED THIS WEEK''] C_RED,
                  Spacer]
                 @ (if get (rc_calls (rc data)) [] \<noteq> []
                    then [calls_table (get (rc_calls (rc data)) [])] else []))"
  by (simp add: repeat_calls_section_def Let_def)

text \<open>
  C4, as the code has it. Whenever a record is rendered: the ``ZERO REPEAT CALLS'' banner
  is emitted exactly when the repeat-calls score equals 30, a literal of the source, not
  the record's \<open>max_score\<close>; otherwise the red banner with the record's repeat count is
  emitted; a table of incidents is emitted exactly when the score is not 30 and the list
  of calls is not empty; the document ends with the heading, the banner, and then either
  the note of success or the table of incidents, if any; and the status of the fourth
  summary card is PERFECT in green exactly when the score is 30, HAS REPEATS in red
  otherwise.
\<close>

theorem repeat_calls_banner_and_card:
  assumes "generate_report_pdf lib data = Inr els"
  shows "(banner [Lit zero_repeat_banner_text] C_GREEN \<in> set els)
           = eq (get (rc_score (rc data)) (PyInt 0)) 30
     \<and> (banner [Num (get (rc_count (rc data)) (PyInt 0)),
                 Lit '' REPEAT CALL(S) RECORDED THIS WEEK''] C_RED \<in> set els)
           = (\<not> eq (get (rc_score (rc data)) (PyInt 0)) 30)
     \<and> (\<exists>cs. calls_table cs \<in> set els)
           = (\<not> eq (get (rc_score (rc data)) (PyInt 0)) 30 \<and> get (rc_calls (rc data)) [] \<noteq> [])
     \<and> (\<exists>pre. els = pre @
           (if eq (get (rc_score (rc data)) (PyInt 0)) 30
            then [Paragraph [Lit ''4. REPEAT CALLS: '', Num (get (rc_score (rc data)) (PyInt 0)),
                             Lit ''/30''] (Some C_GREEN),
                  banner [Lit zero_repeat_banner_text] C_GREEN,
                  Spacer,
                  info_box [Lit ''All customer issues resolved on first visit. Demonstrates strong technical competence and effective problem-solving.'']
                    ''#E8F5E9'' C_GREEN]
            else [Paragraph [Lit ''4. REPEAT CALLS: '', Num (get (rc_score (rc data)) (PyInt 0)),
                             Lit ''/30''] (Some C_RED),
                  banner [Num (get (rc_count (rc data)) (PyInt 0)),
                          Lit '' REPEAT CALL(S) RECORDED THIS WEEK''] C_RED,
                  Spacer]
                 @ (if get (rc_calls (rc data)) [] \<noteq> []
                    then [calls_table (get (rc_calls (rc data)) [])] else [])))
     \<and> table_rows (els ! 4) ! 2 ! 3
           = Para [Lit (if eq (get (rc_score (rc data)) (PyInt 0)) 30
                        then ''PERFECT'' else ''HAS REPEATS'')]
                  (Some (if eq (get (rc_score (rc data)) (PyInt 0)) 30 then C_GREEN else C_RED))"
proof -
  let ?perfect = "eq (get (rc_score (rc data)) (PyInt 0)) 30"
  have zero: "(banner [Lit zero_repeat_banner_text] C_GREEN \<in> set els) = ?perfect"
    using banner_in_document[OF assms, of "[Lit zero_repeat_banner_text]" C_GREEN]
    by (simp add: banner_in_repeat_calls_section zero_repeat_banner_text_def
        critical_banner_text_def no_feedback_banner_text_def C_GREEN_def C_RED_def C_ORANGE_def)
  have count: "(banner [Num (get (rc_count (rc data)) (PyInt 0)),
                 Lit '' REPEAT CALL(S) RECORDED THIS WEEK''] C_RED \<in> set els) = (\<not> ?perfect)"
    using banner_in_document[OF assms, of "[Num (get (rc_count (rc data)) (PyInt 0)),
                 Lit '' REPEAT CALL(S) RECORDED THIS WEEK'']" C_RED]
    by (simp add: banner_in_repeat_calls_section)
  have tail: "\<exists>pre. els = pre @ repeat_calls_section data"
    by (rule document_ends_with_repeat_calls[OF assms])
  have card: "table_rows (els ! 4) ! 2 ! 3
           = Para [Lit (if ?perfect then ''PERFECT'' else ''HAS REPEATS'')]
                  (Some (if ?perfect then C_GREEN else C_RED))"
    unfolding document_nth_4[OF assms] cards_status_cells
    by (simp add: c4_def card_col_def Let_def rc_good_def C_GREEN_def C_RED_def)
  have tail': "\<exists>pre. els = pre @
           (if ?perfect
            then [Paragraph [Lit ''4. REPEAT CALLS: '', Num (get (rc_score (rc data)) (PyInt 0)),
                             Lit ''/30''] (Some C_GREEN),
                  banner [Lit zero_repeat_banner_text] C_GREEN,
                  Spacer,
                  info_box [Lit ''All customer issues resolved on first visit. Demonstrates strong technical competence and effective problem-solving.'']
                    ''#E8F5E9'' C_GREEN]
            else [Paragraph [Lit ''4. REPEAT CALLS: '', Num (get (rc_score (rc data)) (PyInt 0)),
                             Lit ''/30''] (Some C_RED),
                  banner [Num (get (rc_count (rc data)) (PyInt 0)),
                          Lit '' REPEAT CALL(S) RECORDED THIS WEEK''] C_RED,
                  Spacer]
                 @ (if get (rc_calls (rc data)) [] \<noteq> []
                    then [calls_table (get (rc_calls (rc data)) [])] else []))"
    using tail unfolding repeat_calls_section_cases .
  from zero count calls_table_in_document[OF assms] tail' card show ?thesis by blast
qed

lemma one_repeat_renders: "\<exists>els. generate_report_pdf plain_reportlab one_repeat_record = Inr els"
  by (simp add: one_repeat_record_def record_defs render_defs)

theorem repeat_calls_banner_and_card_witness:
  "\<exists>els. generate_report_pdf plain_reportlab one_repeat_record = Inr els
     \<and> banner [Num (PyInt 1), Lit '' REPEAT CALL(S) RECORDED THIS WEEK''] C_RED \<in> set els
     \<and> banner [Lit zero_repeat_banner_text] C_GREEN \<notin> set els
     \<and> (\<exists>cs. calls_table cs \<in> set els)
     \<and> table_rows (els ! 4) ! 2 ! 3 = Para [Lit ''HAS REPEATS''] (Some C_RED)"
proof -
  obtain els where e: "generate_report_pdf plain_reportlab one_repeat_record = Inr els"
    using one_repeat_renders by blast
  have s: "\<not> eq (get (rc_score (rc one_repeat_record)) (PyInt 0)) 30"
    "get (rc_count (rc one_repeat_record)) (PyInt 0) = PyInt 1"
    "get (rc_calls (rc one_repeat_record)) [] \<noteq> []"
    by (simp_all add: one_repeat_record_def record_defs rc_def eq_def)
  from repeat_calls_banner_and_card[OF e] s e show ?thesis by simp
qed

text \<open>
  C4 as stated fails: a record whose repeat-calls score is 20 with \<open>max_score\<close> 20 has a
  score equal to its maximum, and yet no ``ZERO REPEAT CALLS'' banner is emitted and its
  card reads HAS REPEATS.
\<close>

theorem zero_banner_counterexample:
  "and_then (generate_report_pdf plain_reportlab full_marks_of_20_record)
     (\<lambda>els. Inr (banner [Lit zero_repeat_banner_text] C_GREEN \<in> set els,
                  table_rows (els ! 4) ! 2 ! 3))
   = Inr (False, Para [Lit ''HAS REPEATS''] (Some ''#E74C3C''))"
  by (simp add: full_marks_of_20_record_def record_defs render_defs banner_def info_box_def
      banner_content_def cards_def cmp_table_def days_table_def calls_table_def
      c1_def c2_def c3_def c4_def card_col_def rc_good_def eq_def lt_def
      zero_repeat_banner_text_def critical_banner_text_def C_GREEN_def C_RED_def)

subsection \<open>The tiers of form quality\<close>

lemma lt_ge: "lt x k = (\<not> ge x k)"
  by (auto simp: lt_def ge_def)

lemma fq_color_tiers:
  "fq_color s = (if lt s 5 then C_RED else if lt s 8 then C_ORANGE else C_GREEN)"
  by (auto simp: fq_color_def lt_def ge_def)

lemma fq_heading_not_in_page1:
  "Paragraph [Lit ''2. FORM QUALITY: '', x, Lit ''/20''] c \<notin> set (page1 data a b d e f)"
  by (simp add: page1_def banner_content_def cards_def cmp_table_def info_box_def title_text_def
      subtitle_text_def)

lemma fq_heading_not_in_hours_part:
  "Paragraph [Lit ''2. FORM QUALITY: '', x, Lit ''/20''] c \<notin> set (hours_part data a)"
  by (simp add: hours_part_def days_table_def wh_analysis_def)

lemma paragraph_not_in_example_blocks: "Paragraph t c \<notin> set (example_blocks col i exs)"
  by (induction col i exs rule: example_blocks.induct) (simp_all add: ex_table_def Let_def)

lemma fq_heading_in_form_quality_section:
  "(Paragraph [Lit ''2. FORM QUALITY: '', Num s, Lit ''/20''] (Some c) \<in> set (form_quality_section data))
   = (s = get (fq_score (fq data)) (PyInt 0) \<and> c = fq_color (get (fq_score (fq data)) (PyInt 0)))"
  by (auto simp: form_quality_section_def Let_def paragraph_not_in_example_blocks banner_def)

lemma fq_heading_not_in_feedback_section:
  "feedback_section lib data = Inr part \<Longrightarrow>
   Paragraph [Lit ''2. FORM QUALITY: '', x, Lit ''/20''] c \<notin> set part"
  by (auto simp: feedback_section_def and_then_Inr not_applicable_part_def ratings_part_def
      banner_def info_box_def ratings_table_def split: if_splits)

lemma fq_heading_not_in_repeat_calls_section:
  "Paragraph [Lit ''2. FORM QUALITY: '', x, Lit ''/20''] c \<notin> set (repeat_calls_section data)"
  by (simp add: repeat_calls_section_def Let_def banner_def info_box_def calls_table_def)

lemma fq_heading_in_document:
  assumes "generate_report_pdf lib data = Inr els"
  shows "(Paragraph [Lit ''2. FORM QUALITY: '', Num (get (fq_score (fq data)) (PyInt 0)), Lit ''/20'']
            (Some c) \<in> set els)
         = (c = fq_color (get (fq_score (fq data)) (PyInt 0)))"
proof -
  from generate_report_pdf_parts[OF assms] obtain w1p delta n m part
    where f: "feedback_section lib data = Inr part"
      and els: "els = page1 data (Fixed1 (value_of (pct data))) w1p delta (Signed_d n) (Signed_d m)
             @ hours_part data (Signed_d n) @ form_quality_section data
             @ part @ repeat_calls_section data" by blast
  show ?thesis unfolding els
    using fq_heading_not_in_feedback_section[OF f]
    by (simp add: fq_heading_not_in_page1 fq_heading_not_in_hours_part
        fq_heading_in_form_quality_section fq_heading_not_in_repeat_calls_section)
qed

lemma critical_banner_in_document:
  assumes "generate_report_pdf lib data = Inr els"
  shows "(banner [Lit critical_banner_text] C_RED \<in> set els)
         = lt (get (fq_score (fq data)) (PyInt 0)) 5"
  using banner_in_document[OF assms, of "[Lit critical_banner_text]" C_RED]
  by (simp add: banner_in_repeat_calls_section zero_repeat_banner_text_def
      critical_banner_text_def no_feedback_banner_text_def C_GREEN_def C_RED_def C_ORANGE_def)

text \<open>
  C7, as the code has it. Whenever a record is rendered, with form-quality score \<open>s\<close>:
  the heading of the form quality section is red for \<open>s < 5\<close>, orange for \<open>5 \<le> s < 8\<close>
  and green for \<open>s \<ge> 8\<close>; the critical banner is emitted exactly when \<open>s < 5\<close>; and the
  summary card has two tiers only: CRITICAL in red for \<open>s < 8\<close>, GOOD in green otherwise.
\<close>

theorem form_quality_tiers:
  assumes "generate_report_pdf lib data = Inr els"
  shows "(\<forall>c. (Paragraph [Lit ''2. FORM QUALITY: '', Num (get (fq_score (fq data)) (PyInt 0)),
                          Lit ''/20''] (Some c) \<in> set els)
              = (c = (if lt (get (fq_score (fq data)) (PyInt 0)) 5 then C_RED
                      else if lt (get (fq_score (fq data)) (PyInt 0)) 8 then C_ORANGE
                      else C_GREEN)))
     \<and> (banner [Lit critical_banner_text] C_RED \<in> set els)
           = lt (get (fq_score (fq data)) (PyInt 0)) 5
     \<and> table_rows (els ! 4) ! 2 ! 1
           = Para [Lit (if lt (get (fq_score (fq data)) (PyInt 0)) 8 then ''CRITICAL'' else ''GOOD'')]
                  (Some (if lt (get (fq_score (fq data)) (PyInt 0)) 8 then C_RED else C_GREEN))"
proof -
  have card: "table_rows (els ! 4) ! 2 ! 1
           = Para [Lit (if lt (get (fq_score (fq data)) (PyInt 0)) 8 then ''CRITICAL'' else ''GOOD'')]
                  (Some (if lt (get (fq_score (fq data)) (PyInt 0)) 8 then C_RED else C_GREEN))"
    unfolding document_nth_4[OF assms] cards_status_cells
    by (simp add: c2_def card_col_def Let_def fq_good_def lt_ge C_GREEN_def C_RED_def)
  from fq_heading_in_document[OF assms] critical_banner_in_document[OF assms] card
  show ?thesis by (simp add: fq_color_tiers)
qed

lemma form_quality_6_renders: "\<exists>els. generate_report_pdf plain_reportlab form_quality_6_record = Inr els"
  by (simp add: form_quality_6_record_def record_defs render_defs)

theorem form_quality_tiers_witness:
  "\<exists>els. generate_report_pdf plain_reportlab form_quality_6_record = Inr els
     \<and> Paragraph [Lit ''2. FORM QUALITY: '', Num (PyInt 6), Lit ''/20''] (Some C_ORANGE) \<in> set els
     \<and> banner [Lit critical_banner_text] C_RED \<notin> set els
     \<and> table_rows (els ! 4) ! 2 ! 1 = Para [Lit ''CRITICAL''] (Some C_RED)"
proof -
  obtain els where e: "generate_report_pdf plain_reportlab form_quality_6_record = Inr els"
    using form_quality_6_renders by blast
  have s: "get (fq_score (fq form_quality_6_record)) (PyInt 0) = PyInt 6"
    by (simp add: form_quality_6_record_def record_defs fq_def)
  from form_quality_tiers[OF e] e show ?thesis unfolding s by (simp add: lt_def)
qed

text \<open>
  C7 as stated fails on the summary card: for the score 6, a warning by the claim, the card
  reads CRITICAL in red, not orange.
\<close>

theorem form_quality_card_counterexample:
  "and_then (generate_report_pdf plain_reportlab form_quality_6_record)
     (\<lambda>els. Inr (table_rows (els ! 4) ! 2 ! 1))
   = Inr (Para [Lit ''CRITICAL''] (Some C_RED))
   \<and> C_RED \<noteq> C_ORANGE"
  by (simp add: form_quality_6_record_def record_defs render_defs cards_def
      c1_def c2_def c3_def c4_def card_col_def fq_good_def ge_def C_RED_def C_ORANGE_def)

subsection \<open>Feedback marked inapplicable\<close>
























subsection \<open>Absent keys and their defaults\<close>

text \<open>
  Rendering reads a record completed with the defaults as it reads the record itself.
\<close>

lemma get_Some_get: "get (Some (get x d)) d' = get x d"
  by simp






























subsection \<open>Sparse records\<close>
















end
